theory Spec2Isabelle
  imports Main "HOL-Library.Word" "HOL-Library.Sublist"
begin

section \<open>Python values, bytes and text\<close>

text \<open>
  A byte is an 8-bit word; a Python \<open>bytes\<close> object is a list of bytes. A Python
  \<open>str\<close> is a list of Unicode code points, so that \<open>len\<close> counts code points and
  \<open>encode\<close> may produce more bytes than that.
\<close>

type_synonym byte = "8 word"
type_synonym bytes = "byte list"
type_synonym pystr = "nat list"

definition ascii :: "string \<Rightarrow> pystr" where
  "ascii s = map of_char s"

definition ascii_bytes :: "string \<Rightarrow> bytes" where
  "ascii_bytes s = map (\<lambda>c. of_nat (of_char c)) s"

datatype pyval =
    PyNone
  | PyBool bool
  | PyInt int
  | PyStr pystr
  | PyBytes bytes
  | PyList "pyval list"

subsection \<open>\<open>str(int)\<close>\<close>

fun digits :: "nat \<Rightarrow> pystr" where
  "digits n = (if n < 10 then [48 + n] else digits (n div 10) @ [48 + n mod 10])"

declare digits.simps [simp del]

definition str_int :: "int \<Rightarrow> pystr" where
  "str_int i = (if i < 0 then 45 # digits (nat (- i)) else digits (nat i))"

section \<open>Errors\<close>

text \<open>
  \<open>ERROR_CODES\<close> is imported from the \<open>errorcodes\<close> module, which is a table from
  numeric code to description; it is taken as a parameter (a dict, that is a map).

  \<^verbatim>\<open>
  class ADSError(Exception):
      def __init__(self, err_code):
          self.err_code = err_code
          try:
              self.msg = "{} ({})".format(ERROR_CODES[self.err_code], self.err_code)
          except KeyError:
              self.msg = "Unknown Error ({0})".format(self.err_code)
      def __str__(self):
          return "ADSError: " + self.msg
  \<close>
\<close>

record ADSError =
  err_code :: int
  msg :: pystr

definition ADSError_init :: "(int \<rightharpoonup> pystr) \<Rightarrow> int \<Rightarrow> ADSError" where
  "ADSError_init ERROR_CODES code =
     \<lparr>err_code = code,
      msg = (case ERROR_CODES code of
               Some description \<Rightarrow> description @ ascii '' ('' @ str_int code @ ascii '')''
             | None \<Rightarrow> ascii ''Unknown Error ('' @ str_int code @ ascii '')'')\<rparr>"

definition ADSError_str :: "ADSError \<Rightarrow> pystr" where
  "ADSError_str e = ascii ''ADSError: '' @ msg e"

text \<open>The exceptions that the module's functions can raise.\<close>

datatype exn =
    ADSErr ADSError
  | RuntimeError pystr
  | TypeError
  | AttributeError
  | IndexError
  | UnicodeEncodeError
  | UnicodeDecodeError

subsection \<open>UTF-8, as \<open>str.encode()\<close> and \<open>bytes.decode("utf-8")\<close> do it\<close>

text \<open>
  Surrogates cannot be encoded. A code point above \<open>0x10FFFF\<close> is no character of a
  Python \<open>str\<close>; the encoder refuses it too.
\<close>

definition utf8_char :: "nat \<Rightarrow> exn + bytes" where
  "utf8_char cp =
     (if cp < 0x80 then Inr [of_nat cp]
      else if cp < 0x800 then Inr [of_nat (0xC0 + cp div 64), of_nat (0x80 + cp mod 64)]
      else if cp < 0x10000 then
        (if 0xD800 \<le> cp \<and> cp \<le> 0xDFFF then Inl UnicodeEncodeError
         else Inr [of_nat (0xE0 + cp div 4096), of_nat (0x80 + (cp div 64) mod 64),
                   of_nat (0x80 + cp mod 64)])
      else if cp < 0x110000 then
        Inr [of_nat (0xF0 + cp div 262144), of_nat (0x80 + (cp div 4096) mod 64),
             of_nat (0x80 + (cp div 64) mod 64), of_nat (0x80 + cp mod 64)]
      else Inl UnicodeEncodeError)"

fun utf8_encode :: "pystr \<Rightarrow> exn + bytes" where
  "utf8_encode [] = Inr []"
| "utf8_encode (cp # s) =
     (case utf8_char cp of
        Inl e \<Rightarrow> Inl e
      | Inr bs \<Rightarrow> (case utf8_encode s of Inl e \<Rightarrow> Inl e | Inr rest \<Rightarrow> Inr (bs @ rest)))"

definition cont :: "byte \<Rightarrow> bool" where
  "cont b = (0x80 \<le> b \<and> b \<le> 0xBF)"

text \<open>
  One character of strict UTF-8: the code point and the number of bytes it takes, or
  \<open>None\<close> where Python raises \<open>UnicodeDecodeError\<close> (a stray continuation byte, an
  overlong form, a surrogate, a value above \<open>0x10FFFF\<close>, a sequence cut short).
\<close>

fun utf8_step :: "bytes \<Rightarrow> (nat \<times> nat) option" where
  "utf8_step [] = None"
| "utf8_step (b0 # bs) =
     (if b0 < 0x80 then Some (unat b0, 1)
      else if 0xC2 \<le> b0 \<and> b0 \<le> 0xDF then
        (case bs of
           b1 # _ \<Rightarrow>
             (if cont b1 then Some ((unat b0 - 0xC0) * 64 + (unat b1 - 0x80), 2) else None)
         | _ \<Rightarrow> None)
      else if 0xE0 \<le> b0 \<and> b0 \<le> 0xEF then
        (case bs of
           b1 # b2 # _ \<Rightarrow>
             (if (if b0 = 0xE0 then 0xA0 else 0x80) \<le> b1
                 \<and> b1 \<le> (if b0 = 0xED then 0x9F else 0xBF) \<and> cont b2
              then Some ((unat b0 - 0xE0) * 4096 + (unat b1 - 0x80) * 64 + (unat b2 - 0x80), 3)
              else None)
         | _ \<Rightarrow> None)
      else if 0xF0 \<le> b0 \<and> b0 \<le> 0xF4 then
        (case bs of
           b1 # b2 # b3 # _ \<Rightarrow>
             (if (if b0 = 0xF0 then 0x90 else 0x80) \<le> b1
                 \<and> b1 \<le> (if b0 = 0xF4 then 0x8F else 0xBF) \<and> cont b2 \<and> cont b3
              then Some ((unat b0 - 0xF0) * 262144 + (unat b1 - 0x80) * 4096
                         + (unat b2 - 0x80) * 64 + (unat b3 - 0x80), 4)
              else None)
         | _ \<Rightarrow> None)
      else None)"

function utf8_decode :: "bytes \<Rightarrow> exn + pystr" where
  "utf8_decode bs =
     (if bs = [] then Inr []
      else case utf8_step bs of
             None \<Rightarrow> Inl UnicodeDecodeError
           | Some (cp, n) \<Rightarrow>
               (case utf8_decode (drop n bs) of Inl e \<Rightarrow> Inl e | Inr s \<Rightarrow> Inr (cp # s)))"
  by pat_completeness auto
termination
proof (relation "measure length")
  show "wf (measure length)" by simp
next
  fix bs :: bytes and x2 x y
  assume "bs \<noteq> []" and "utf8_step bs = Some x2" and "(x, y) = x2"
  then have "0 < y"
    by (cases bs) (auto split: if_splits list.splits)
  with \<open>bs \<noteq> []\<close> show "(drop y bs, bs) \<in> measure length" by simp
qed

declare utf8_decode.simps [simp del]

section \<open>The ctypes objects behind the PLC types\<close>

text \<open>
  The PLC types are ctypes types: an integer, boolean or character type, or an array
  \<open>c * n\<close> of one of them (the type of such an array type is named
  \<open>PyCArrayType\<close>). The floating-point types are left out of the model.
  \<open>PLCTYPE_STRING\<close> and \<open>PLCTYPE_UDINT\<close> are imported from the \<open>constants\<close>
  module: the first is the character type (\<open>STRING_BUFFER * PLCTYPE_STRING\<close> is a
  buffer whose \<open>value\<close> is a \<open>bytes\<close>), the second the unsigned 32-bit integer.
\<close>

datatype ctype =
    c_char | c_bool
  | c_int8 | c_uint8 | c_int16 | c_uint16 | c_int32 | c_uint32 | c_int64 | c_uint64

datatype plctype = Simple ctype | Array ctype nat

abbreviation PLCTYPE_STRING :: plctype where
  "PLCTYPE_STRING \<equiv> Simple c_char"

abbreviation PLCTYPE_UDINT :: plctype where
  "PLCTYPE_UDINT \<equiv> Simple c_uint32"

fun PyCArrayType :: "plctype \<Rightarrow> bool" where
  "PyCArrayType (Array c n) = True"
| "PyCArrayType (Simple c) = False"

fun sizeof_c :: "ctype \<Rightarrow> nat" where
  "sizeof_c c_char = 1"
| "sizeof_c c_bool = 1"
| "sizeof_c c_int8 = 1"
| "sizeof_c c_uint8 = 1"
| "sizeof_c c_int16 = 2"
| "sizeof_c c_uint16 = 2"
| "sizeof_c c_int32 = 4"
| "sizeof_c c_uint32 = 4"
| "sizeof_c c_int64 = 8"
| "sizeof_c c_uint64 = 8"

fun is_signed :: "ctype \<Rightarrow> bool" where
  "is_signed c_int8 = True"
| "is_signed c_int16 = True"
| "is_signed c_int32 = True"
| "is_signed c_int64 = True"
| "is_signed c = False"

fun sizeof :: "plctype \<Rightarrow> nat" where
  "sizeof (Simple c) = sizeof_c c"
| "sizeof (Array c n) = n * sizeof_c c"

text \<open>Little-endian images of integers, as the x86 target of the DLL stores them.\<close>

fun le_bytes :: "nat \<Rightarrow> nat \<Rightarrow> bytes" where
  "le_bytes 0 v = []"
| "le_bytes (Suc k) v = of_nat (v mod 256) # le_bytes k (v div 256)"

fun le_nat :: "bytes \<Rightarrow> nat" where
  "le_nat [] = 0"
| "le_nat (b # bs) = unat b + 256 * le_nat bs"

definition signed_of :: "nat \<Rightarrow> nat \<Rightarrow> int" where
  "signed_of k v = (if 2 ^ (8 * k - 1) \<le> v then int v - 2 ^ (8 * k) else int v)"

fun truthy :: "pyval \<Rightarrow> bool" where
  "truthy PyNone = False"
| "truthy (PyBool b) = b"
| "truthy (PyInt i) = (i \<noteq> 0)"
| "truthy (PyStr s) = (s \<noteq> [])"
| "truthy (PyBytes bs) = (bs \<noteq> [])"
| "truthy (PyList xs) = (xs \<noteq> [])"

text \<open>
  Storing a Python value into a ctypes object of a simple type: the integer types take
  an \<open>int\<close> (a \<open>bool\<close> is one) and keep its low bits without a range check,
  \<open>c_bool\<close> takes the truth value of anything, \<open>c_char\<close> takes one byte or an
  \<open>int\<close> below 256; everything else is a \<open>TypeError\<close>.
\<close>

fun c_set :: "ctype \<Rightarrow> pyval \<Rightarrow> exn + bytes" where
  "c_set c_bool v = Inr [if truthy v then 1 else 0]"
| "c_set c_char (PyBytes bs) = (case bs of [b] \<Rightarrow> Inr [b] | _ \<Rightarrow> Inl TypeError)"
| "c_set c_char (PyInt i) = (if 0 \<le> i \<and> i < 256 then Inr [of_int i] else Inl TypeError)"
| "c_set c_char (PyBool b) = Inr [if b then 1 else 0]"
| "c_set c_char v = Inl TypeError"
| "c_set c (PyInt i) = Inr (le_bytes (sizeof_c c) (nat (i mod 2 ^ (8 * sizeof_c c))))"
| "c_set c (PyBool b) = Inr (le_bytes (sizeof_c c) (if b then 1 else 0))"
| "c_set c v = Inl TypeError"

text \<open>The \<open>value\<close> attribute of a simple ctypes object whose memory holds \<open>bs\<close>.\<close>

fun c_get :: "ctype \<Rightarrow> bytes \<Rightarrow> pyval" where
  "c_get c_bool bs = PyBool (le_nat bs \<noteq> 0)"
| "c_get c_char bs = PyBytes bs"
| "c_get c bs =
     PyInt (if is_signed c then signed_of (sizeof_c c) (le_nat bs) else int (le_nat bs))"

text \<open>
  An array is initialised item by item from the positional arguments; an argument past
  the end is an \<open>IndexError\<close>, the items without an argument stay zero.
\<close>

fun array_init :: "ctype \<Rightarrow> nat \<Rightarrow> pyval list \<Rightarrow> exn + bytes" where
  "array_init c n [] = Inr (replicate (n * sizeof_c c) 0)"
| "array_init c 0 (v # vs) = Inl IndexError"
| "array_init c (Suc n) (v # vs) =
     (case c_set c v of
        Inl e \<Rightarrow> Inl e
      | Inr bs \<Rightarrow>
          (case array_init c n vs of Inl e \<Rightarrow> Inl e | Inr rest \<Rightarrow> Inr (bs @ rest)))"

text \<open>\<open>plcDataType(*args)\<close>: the memory image of the new object.\<close>

fun ctypes_new :: "plctype \<Rightarrow> pyval list \<Rightarrow> exn + bytes" where
  "ctypes_new (Simple c) [] = Inr (replicate (sizeof_c c) 0)"
| "ctypes_new (Simple c) [v] = c_set c v"
| "ctypes_new (Simple c) vs = Inl TypeError"
| "ctypes_new (Array c n) vs = array_init c n vs"

text \<open>The items of \<open>*value\<close>.\<close>

fun unpack :: "pyval \<Rightarrow> exn + pyval list" where
  "unpack (PyList xs) = Inr xs"
| "unpack (PyStr s) = Inr (map (\<lambda>cp. PyStr [cp]) s)"
| "unpack (PyBytes bs) = Inr (map (\<lambda>b. PyInt (uint b)) bs)"
| "unpack v = Inl TypeError"

text \<open>\<open>[i for i in data]\<close> for an array of \<open>n\<close> items in memory \<open>bs\<close>.\<close>

fun array_items :: "ctype \<Rightarrow> nat \<Rightarrow> bytes \<Rightarrow> pyval list" where
  "array_items c 0 bs = []"
| "array_items c (Suc n) bs =
     c_get c (take (sizeof_c c) bs) # array_items c n (drop (sizeof_c c) bs)"

fun c_ulong :: "pyval \<Rightarrow> exn + 32 word" where
  "c_ulong (PyInt i) = Inr (word_of_int i)"
| "c_ulong (PyBool b) = Inr (if b then 1 else 0)"
| "c_ulong v = Inl TypeError"

text \<open>\<open>c_long\<close> has the same 32 bits on the target of the DLL.\<close>

definition c_long :: "pyval \<Rightarrow> exn + 32 word" where
  "c_long v = c_ulong v"

text \<open>\<open>value.encode()\<close>: only a \<open>str\<close> has the method.\<close>

fun encode :: "pyval \<Rightarrow> exn + bytes" where
  "encode (PyStr s) = utf8_encode s"
| "encode v = Inl AttributeError"

text \<open>\<open>len(value)\<close>.\<close>

fun len :: "pyval \<Rightarrow> exn + nat" where
  "len (PyStr s) = Inr (length s)"
| "len (PyBytes bs) = Inr (length bs)"
| "len (PyList xs) = Inr (length xs)"
| "len v = Inl TypeError"

text \<open>
  \<open>c_char_p(b)\<close> points at a copy of \<open>b\<close> followed by a null byte; its \<open>value\<close>
  is the bytes before the first null, and the DLL, given a length, reads that many bytes
  from the pointer.
\<close>

definition c_char_p_value :: "bytes \<Rightarrow> bytes" where
  "c_char_p_value b = takeWhile (\<lambda>x. x \<noteq> 0) b"

definition c_char_p_read :: "bytes \<Rightarrow> nat \<Rightarrow> bytes" where
  "c_char_p_read b n = take n (b @ [0])"

text \<open>
  A zero-initialised buffer of \<open>n\<close> bytes after the DLL has written \<open>bs\<close> to its
  start (never past its end).
\<close>

definition buffer :: "nat \<Rightarrow> bytes \<Rightarrow> bytes" where
  "buffer n bs = take n bs @ replicate (n - length bs) 0"

section \<open>The transport and the state of the module\<close>

text \<open>
  Modelled from the spec: the \<open>structs\<close> module is not among the sources. An address is
  a 6-byte network identity and a 16-bit port; the notification attributes are the
  length, the transmission mode, the maximum delay and the cycle time; a version is the
  triple of version, revision and build (one byte, one byte and two bytes of the
  structure \<open>SAdsVersion\<close>).
\<close>

record SAmsAddr =
  netId :: bytes
  port :: "16 word"

datatype AmsAddr = AmsAddr (amsAddrStruct: SAmsAddr)

record SAdsNotificationAttrib =
  cbLength :: "32 word"
  nTransMode :: "32 word"
  nMaxDelay :: "32 word"
  nCycleTime :: "32 word"

datatype NotificationAttrib =
  NotificationAttrib (notificationAttribStruct: SAdsNotificationAttrib)

record AdsVersion =
  version :: nat
  revision :: nat
  build :: nat

definition AdsVersion_of :: "bytes \<Rightarrow> AdsVersion" where
  "AdsVersion_of st =
     \<lparr>version = le_nat (take 1 st), revision = le_nat (take 1 (drop 1 st)),
      build = le_nat (take 2 (drop 2 st))\<rparr>"

definition SAmsAddr_of :: "bytes \<Rightarrow> SAmsAddr" where
  "SAmsAddr_of st = \<lparr>netId = take 6 st, port = of_nat (le_nat (take 2 (drop 6 st)))\<rparr>"

text \<open>
  The functions of \<open>TcAdsDll\<close> that the module calls, with the arguments it passes by
  value and the bytes behind the pointers it passes for reading. \<open>NOTEFUNC(callback)\<close>
  is the C function object that wraps a Python callback.
\<close>

datatype 'cb cfunc = NOTEFUNC 'cb

datatype 'cb call =
    AdsGetDllVersion
  | AdsPortOpen
  | AdsPortClose
  | AdsGetLocalAddress
  | AdsSyncReadStateReq SAmsAddr
  | AdsSyncReadDeviceInfoReq SAmsAddr
  | AdsSyncWriteControlReq SAmsAddr "32 word" "32 word" "32 word" bytes
  | AdsSyncWriteReq SAmsAddr "32 word" "32 word" "32 word" bytes
  | AdsSyncReadWriteReq SAmsAddr "32 word" "32 word" "32 word" "32 word" bytes
  | AdsSyncReadReq SAmsAddr "32 word" "32 word" "32 word"
  | AdsSyncAddDeviceNotificationReq SAmsAddr "32 word" "32 word" SAdsNotificationAttrib
      "'cb cfunc" "32 word"
  | AdsSyncDelDeviceNotificationReq SAmsAddr "32 word"
  | AdsSyncSetTimeout "32 word"

text \<open>
  What a call gives back: the 32-bit return value and the bytes written through the
  first and the second pointer that the call may write to.
\<close>

record reply =
  ret :: "32 word"
  out1 :: bytes
  out2 :: bytes

text \<open>
  The state that the module's functions change: the calls made to the DLL so far, in
  order, and the dict \<open>callback_store\<close>, whose values are a C function object or
  \<open>None\<close>.
\<close>

record 'cb world =
  calls :: "'cb call list"
  callback_store :: "int \<rightharpoonup> 'cb cfunc option"

text \<open>
  What the module imports and does not define: the platform test, the table of error
  codes, the reserved index groups, the size of the string buffer, and the DLL, whose
  answer to a call may depend on the calls before it.
\<close>

record 'cb env =
  platform_is_windows :: bool
  ERROR_CODES :: "int \<rightharpoonup> pystr"
  ADSIGRP_SYM_HNDBYNAME :: int
  ADSIGRP_SYM_VALBYHND :: int
  ADSIGRP_SYM_RELEASEHND :: int
  STRING_BUFFER :: nat
  adsDLL :: "'cb call list \<Rightarrow> 'cb call \<Rightarrow> reply"

definition invoke :: "'cb env \<Rightarrow> 'cb call \<Rightarrow> 'cb world \<Rightarrow> reply \<times> 'cb world" where
  "invoke E c w = (adsDLL E (calls w) c, w\<lparr>calls := calls w @ [c]\<rparr>)"

text \<open>\<open>raise ADSError(errCode)\<close>.\<close>

definition raise_ADSError :: "'cb env \<Rightarrow> int \<Rightarrow> exn + 'a" where
  "raise_ADSError E errCode = Inl (ADSErr (ADSError_init (ERROR_CODES E) errCode))"

section \<open>The functions of the module\<close>

text \<open>
  \<^verbatim>\<open>
  def win32_only(fn):
      @wraps(fn)
      def wrapper(*args, **kwargs):
          if not platform_is_windows():
              raise RuntimeError(
                  "{0} is only supported when using the TcAdsDll (win32).".format(
                      fn.__name__))
          return fn(*args, **kwargs)
      return wrapper
  \<close>
  A decorated function is the wrapper around its body; the body takes the state and
  returns the exception or the result, and the state after it.
\<close>

definition win32_only ::
  "'cb env \<Rightarrow> string \<Rightarrow> ('w \<Rightarrow> (exn + 'a) \<times> 'w) \<Rightarrow> 'w \<Rightarrow> (exn + 'a) \<times> 'w" where
  "win32_only E name fn w =
     (if \<not> platform_is_windows E
      then (Inl (RuntimeError
                  (ascii name @ ascii '' is only supported when using the TcAdsDll (win32).'')),
            w)
      else fn w)"

definition adsGetDllVersion :: "'cb env \<Rightarrow> 'cb world \<Rightarrow> (exn + AdsVersion) \<times> 'cb world" where
  "adsGetDllVersion E =
     win32_only E ''adsGetDllVersion'' (\<lambda>w.
       let (r, w1) = invoke E AdsGetDllVersion w;
           resLong = le_bytes 4 (unat (ret r));
           fit = min 4 (length resLong);
           stVersion = take fit resLong @ replicate (4 - fit) 0
       in (Inr (AdsVersion_of stVersion), w1))"

definition adsPortOpen :: "'cb env \<Rightarrow> 'cb world \<Rightarrow> (exn + int) \<times> 'cb world" where
  "adsPortOpen E =
     win32_only E ''adsPortOpen'' (\<lambda>w.
       let (r, w1) = invoke E AdsPortOpen w;
           portNr = sint (ret r)
       in (Inr portNr, w1))"

definition adsPortClose :: "'cb env \<Rightarrow> 'cb world \<Rightarrow> (exn + unit) \<times> 'cb world" where
  "adsPortClose E =
     win32_only E ''adsPortClose'' (\<lambda>w.
       let (r, w1) = invoke E AdsPortClose w;
           errCode = sint (ret r)
       in if errCode \<noteq> 0 then (raise_ADSError E errCode, w1) else (Inr (), w1))"

definition adsGetLocalAddress :: "'cb env \<Rightarrow> 'cb world \<Rightarrow> (exn + AmsAddr) \<times> 'cb world" where
  "adsGetLocalAddress E =
     win32_only E ''adsGetLocalAddress'' (\<lambda>w.
       let (r, w1) = invoke E AdsGetLocalAddress w;
           stAmsAddr = SAmsAddr_of (buffer 8 (out1 r));
           errCode = sint (ret r)
       in if errCode \<noteq> 0 then (raise_ADSError E errCode, w1)
          else (Inr (AmsAddr stAmsAddr), w1))"

definition adsSyncReadStateReq ::
  "'cb env \<Rightarrow> AmsAddr \<Rightarrow> 'cb world \<Rightarrow> (exn + int \<times> int) \<times> 'cb world" where
  "adsSyncReadStateReq E adr =
     win32_only E ''adsSyncReadStateReq'' (\<lambda>w.
       let (r, w1) = invoke E (AdsSyncReadStateReq (amsAddrStruct adr)) w;
           adsState = signed_of 4 (le_nat (buffer 4 (out1 r)));
           deviceState = signed_of 4 (le_nat (buffer 4 (out2 r)));
           errCode = sint (ret r)
       in if errCode \<noteq> 0 then (raise_ADSError E errCode, w1)
          else (Inr (adsState, deviceState), w1))"

definition adsSyncReadDeviceInfoReq ::
  "'cb env \<Rightarrow> AmsAddr \<Rightarrow> 'cb world \<Rightarrow> (exn + pystr \<times> AdsVersion) \<times> 'cb world" where
  "adsSyncReadDeviceInfoReq E adr =
     win32_only E ''adsSyncReadDeviceInfoReq'' (\<lambda>w.
       let (r, w1) = invoke E (AdsSyncReadDeviceInfoReq (amsAddrStruct adr)) w;
           devNameStringBuffer = buffer 20 (out1 r);
           stVersion = buffer 4 (out2 r);
           errCode = sint (ret r)
       in if errCode \<noteq> 0 then (raise_ADSError E errCode, w1)
          else (case utf8_decode (c_char_p_value devNameStringBuffer) of
                  Inl e \<Rightarrow> (Inl e, w1)
                | Inr s \<Rightarrow> (Inr (s, AdsVersion_of stVersion), w1)))"

text \<open>
  The payload of a write. For \<open>PLCTYPE_STRING\<close>:
  \<^verbatim>\<open>
  nData = c_char_p(value.encode())
  pData = nData
  nLength = len(pData.value) + 1
  \<close>
  and for the other types \<open>nData = plcDataType(value)\<close> (\<open>plcDataType(*value)\<close> for an
  array type where the function tests for it) with \<open>nLength = sizeof(nData)\<close>. The
  result is the length passed and the bytes that the DLL reads.
\<close>

definition string_payload :: "pyval \<Rightarrow> exn + nat \<times> bytes" where
  "string_payload v =
     (case encode v of
        Inl e \<Rightarrow> Inl e
      | Inr b \<Rightarrow>
          (let nLength = length (c_char_p_value b) + 1 in Inr (nLength, c_char_p_read b nLength)))"

definition object_payload :: "plctype \<Rightarrow> pyval list \<Rightarrow> exn + nat \<times> bytes" where
  "object_payload plcDataType args =
     (case ctypes_new plcDataType args of
        Inl e \<Rightarrow> Inl e
      | Inr nData \<Rightarrow> Inr (length nData, nData))"

definition adsSyncWriteControlReq ::
  "'cb env \<Rightarrow> AmsAddr \<Rightarrow> pyval \<Rightarrow> pyval \<Rightarrow> pyval \<Rightarrow> plctype \<Rightarrow> 'cb world
     \<Rightarrow> (exn + unit) \<times> 'cb world" where
  "adsSyncWriteControlReq E adr adsState deviceState data plcDataType =
     win32_only E ''adsSyncWriteControlReq'' (\<lambda>w.
       case c_ulong adsState of
         Inl e \<Rightarrow> (Inl e, w)
       | Inr nAdsState \<Rightarrow>
       (case c_ulong deviceState of
         Inl e \<Rightarrow> (Inl e, w)
       | Inr nDeviceState \<Rightarrow>
       (case (if plcDataType = PLCTYPE_STRING then string_payload data
              else object_payload plcDataType [data]) of
         Inl e \<Rightarrow> (Inl e, w)
       | Inr (nLength, pData) \<Rightarrow>
           (let (r, w1) = invoke E (AdsSyncWriteControlReq (amsAddrStruct adr) nAdsState
                                      nDeviceState (of_nat nLength) pData) w;
                errCode = sint (ret r)
            in if errCode \<noteq> 0 then (raise_ADSError E errCode, w1) else (Inr (), w1)))))"

text \<open>
  \<^verbatim>\<open>
  if plcDataType == PLCTYPE_STRING:
      nData = c_char_p(value.encode())
      pData = nData
      nLength = len(pData.value) + 1
  else:
      if type(plcDataType).__name__ == "PyCArrayType":
          nData = plcDataType(*value)
      else:
          nData = plcDataType(value)
      pData = pointer(nData)
      nLength = sizeof(nData)
  \<close>
\<close>

definition write_data :: "pyval \<Rightarrow> plctype \<Rightarrow> exn + nat \<times> bytes" where
  "write_data val plcDataType =
     (if plcDataType = PLCTYPE_STRING then string_payload val
      else if PyCArrayType plcDataType then
        (case unpack val of
           Inl e \<Rightarrow> Inl e
         | Inr items \<Rightarrow> object_payload plcDataType items)
      else object_payload plcDataType [val])"

definition adsSyncWriteReq ::
  "'cb env \<Rightarrow> AmsAddr \<Rightarrow> pyval \<Rightarrow> pyval \<Rightarrow> pyval \<Rightarrow> plctype \<Rightarrow> 'cb world
     \<Rightarrow> (exn + unit) \<times> 'cb world" where
  "adsSyncWriteReq E adr indexGroup indexOffset val plcDataType =
     win32_only E ''adsSyncWriteReq'' (\<lambda>w.
       case c_ulong indexGroup of
         Inl e \<Rightarrow> (Inl e, w)
       | Inr nIndexGroup \<Rightarrow>
       (case c_ulong indexOffset of
         Inl e \<Rightarrow> (Inl e, w)
       | Inr nIndexOffset \<Rightarrow>
       (case write_data val plcDataType of
         Inl e \<Rightarrow> (Inl e, w)
       | Inr (nLength, pData) \<Rightarrow>
           (let (r, w1) = invoke E (AdsSyncWriteReq (amsAddrStruct adr) nIndexGroup
                                      nIndexOffset (of_nat nLength) pData) w;
                errCode = sint (ret r)
            in if errCode \<noteq> 0 then (raise_ADSError E errCode, w1) else (Inr (), w1)))))"

text \<open>
  What a read returns from the memory of the object that received the data: the items
  of an array as a list, the \<open>value\<close> of a simple object. Every type of the model has
  one of the two, so the last \<open>return\<close> of the two reading functions (the object itself)
  is never reached here.
\<close>

definition read_result :: "plctype \<Rightarrow> bytes \<Rightarrow> pyval" where
  "read_result plcDataType mem =
     (case plcDataType of
        Array c n \<Rightarrow> PyList (array_items c n mem)
      | Simple c \<Rightarrow> c_get c mem)"

text \<open>
  In the combined request the string to write is measured in characters:
  \<^verbatim>\<open>
  ascii_string = value.encode()
  data = c_char_p(ascii_string)
  data_length = len(value) + 1
  \<close>
  and the object that receives a \<open>PLCTYPE_STRING\<close> is a single \<open>c_char\<close>.
\<close>

definition adsSyncReadWriteReq ::
  "'cb env \<Rightarrow> AmsAddr \<Rightarrow> pyval \<Rightarrow> pyval \<Rightarrow> plctype \<Rightarrow> pyval \<Rightarrow> plctype \<Rightarrow> 'cb world
     \<Rightarrow> (exn + pyval) \<times> 'cb world" where
  "adsSyncReadWriteReq E adr indexGroup indexOffset plcReadDataType val plcWriteDataType =
     win32_only E ''adsSyncReadWriteReq'' (\<lambda>w.
       case c_ulong indexGroup of
         Inl e \<Rightarrow> (Inl e, w)
       | Inr nIndexGroup \<Rightarrow>
       (case c_ulong indexOffset of
         Inl e \<Rightarrow> (Inl e, w)
       | Inr nIndexOffset \<Rightarrow>
       (case (if plcWriteDataType = PLCTYPE_STRING then
                (case encode val of
                   Inl e \<Rightarrow> Inl e
                 | Inr ascii_string \<Rightarrow>
                     (case len val of
                        Inl e \<Rightarrow> Inl e
                      | Inr n \<Rightarrow> Inr (n + 1, c_char_p_read ascii_string (n + 1))))
              else object_payload plcWriteDataType [val]) of
         Inl e \<Rightarrow> (Inl e, w)
       | Inr (data_length, data) \<Rightarrow>
           (let nReadLength = sizeof plcReadDataType;
                (r, w1) = invoke E (AdsSyncReadWriteReq (amsAddrStruct adr) nIndexGroup
                                      nIndexOffset (of_nat nReadLength) (of_nat data_length)
                                      data) w;
                readData = buffer nReadLength (out1 r);
                err_code = sint (ret r)
            in if err_code \<noteq> 0 then (raise_ADSError E err_code, w1)
               else if plcReadDataType = PLCTYPE_STRING then
                 (case utf8_decode readData of
                    Inl e \<Rightarrow> (Inl e, w1)
                  | Inr s \<Rightarrow> (Inr (PyStr s), w1))
               else (Inr (read_result plcReadDataType readData), w1)))))"

text \<open>
  A string is read into \<open>(STRING_BUFFER * PLCTYPE_STRING)()\<close>, whose \<open>value\<close> ends
  before the first null byte, or is the whole buffer when there is none.
\<close>

definition adsSyncReadReq ::
  "'cb env \<Rightarrow> AmsAddr \<Rightarrow> pyval \<Rightarrow> pyval \<Rightarrow> plctype \<Rightarrow> 'cb world
     \<Rightarrow> (exn + pyval) \<times> 'cb world" where
  "adsSyncReadReq E adr indexGroup indexOffset plcDataType =
     win32_only E ''adsSyncReadReq'' (\<lambda>w.
       case c_ulong indexGroup of
         Inl e \<Rightarrow> (Inl e, w)
       | Inr nIndexGroup \<Rightarrow>
       (case c_ulong indexOffset of
         Inl e \<Rightarrow> (Inl e, w)
       | Inr nIndexOffset \<Rightarrow>
           (let nLength = (if plcDataType = PLCTYPE_STRING then STRING_BUFFER E * sizeof_c c_char
                           else sizeof plcDataType);
                (r, w1) = invoke E (AdsSyncReadReq (amsAddrStruct adr) nIndexGroup nIndexOffset
                                      (of_nat nLength)) w;
                data = buffer nLength (out1 r);
                errCode = sint (ret r)
            in if errCode \<noteq> 0 then (raise_ADSError E errCode, w1)
               else if plcDataType = PLCTYPE_STRING then
                 (case utf8_decode (c_char_p_value data) of
                    Inl e \<Rightarrow> (Inl e, w1)
                  | Inr s \<Rightarrow> (Inr (PyStr s), w1))
               else (Inr (read_result plcDataType data), w1))))"

definition adsSyncReadByName ::
  "'cb env \<Rightarrow> AmsAddr \<Rightarrow> pyval \<Rightarrow> plctype \<Rightarrow> 'cb world \<Rightarrow> (exn + pyval) \<times> 'cb world" where
  "adsSyncReadByName E adr dataName plcDataType =
     win32_only E ''adsSyncReadByName'' (\<lambda>w.
       case adsSyncReadWriteReq E adr (PyInt (ADSIGRP_SYM_HNDBYNAME E)) (PyInt 0)
              PLCTYPE_UDINT dataName PLCTYPE_STRING w of
         (Inl e, w1) \<Rightarrow> (Inl e, w1)
       | (Inr hnl, w1) \<Rightarrow>
       (case adsSyncReadReq E adr (PyInt (ADSIGRP_SYM_VALBYHND E)) hnl plcDataType w1 of
         (Inl e, w2) \<Rightarrow> (Inl e, w2)
       | (Inr val, w2) \<Rightarrow>
       (case adsSyncWriteReq E adr (PyInt (ADSIGRP_SYM_RELEASEHND E)) (PyInt 0) hnl
               PLCTYPE_UDINT w2 of
         (Inl e, w3) \<Rightarrow> (Inl e, w3)
       | (Inr u, w3) \<Rightarrow> (Inr val, w3))))"

definition adsSyncWriteByName ::
  "'cb env \<Rightarrow> AmsAddr \<Rightarrow> pyval \<Rightarrow> pyval \<Rightarrow> plctype \<Rightarrow> 'cb world
     \<Rightarrow> (exn + unit) \<times> 'cb world" where
  "adsSyncWriteByName E adr dataName val plcDataType =
     win32_only E ''adsSyncWriteByName'' (\<lambda>w.
       case adsSyncReadWriteReq E adr (PyInt (ADSIGRP_SYM_HNDBYNAME E)) (PyInt 0)
              PLCTYPE_UDINT dataName PLCTYPE_STRING w of
         (Inl e, w1) \<Rightarrow> (Inl e, w1)
       | (Inr hnl, w1) \<Rightarrow>
       (case adsSyncWriteReq E adr (PyInt (ADSIGRP_SYM_VALBYHND E)) hnl val plcDataType w1 of
         (Inl e, w2) \<Rightarrow> (Inl e, w2)
       | (Inr u, w2) \<Rightarrow>
           adsSyncWriteReq E adr (PyInt (ADSIGRP_SYM_RELEASEHND E)) (PyInt 0) hnl
             PLCTYPE_UDINT w2))"

text \<open>
  \<open>NOTEFUNC\<close> is \<open>None\<close> unless the platform is Windows. The handle is resolved before
  that is tested. The DLL writes the notification handle through \<open>pNotification\<close>, and
  its return value is read as unsigned (\<open>restype = c_ulong\<close>).
\<close>

definition adsSyncAddDeviceNotificationReq ::
  "'cb env \<Rightarrow> AmsAddr \<Rightarrow> pyval \<Rightarrow> NotificationAttrib \<Rightarrow> 'cb \<Rightarrow> pyval \<Rightarrow> 'cb world
     \<Rightarrow> (exn + int \<times> pyval) \<times> 'cb world" where
  "adsSyncAddDeviceNotificationReq E adr data_name pNoteAttrib callback user_handle =
     win32_only E ''adsSyncAddDeviceNotificationReq'' (\<lambda>w.
       case adsSyncReadWriteReq E adr (PyInt (ADSIGRP_SYM_HNDBYNAME E)) (PyInt 0)
              PLCTYPE_UDINT data_name PLCTYPE_STRING w of
         (Inl e, w1) \<Rightarrow> (Inl e, w1)
       | (Inr hnl, w1) \<Rightarrow>
       (case c_ulong (PyInt (ADSIGRP_SYM_VALBYHND E)) of
         Inl e \<Rightarrow> (Inl e, w1)
       | Inr nIndexGroup \<Rightarrow>
       (case c_ulong hnl of
         Inl e \<Rightarrow> (Inl e, w1)
       | Inr nIndexOffset \<Rightarrow>
       (case (if user_handle \<noteq> PyNone then c_ulong user_handle else c_ulong hnl) of
         Inl e \<Rightarrow> (Inl e, w1)
       | Inr nHUser \<Rightarrow>
           if \<not> platform_is_windows E then (Inl TypeError, w1)
           else
             (let attrib = notificationAttribStruct pNoteAttrib;
                  c_callback = NOTEFUNC callback;
                  (r, w2) = invoke E (AdsSyncAddDeviceNotificationReq (amsAddrStruct adr)
                                        nIndexGroup nIndexOffset attrib c_callback nHUser) w1;
                  pNotification = int (le_nat (buffer 4 (out1 r)));
                  err_code = uint (ret r)
              in if err_code \<noteq> 0 then (raise_ADSError E err_code, w2)
                 else (Inr (pNotification, hnl),
                       w2\<lparr>callback_store :=
                            (callback_store w2)(pNotification \<mapsto> Some c_callback)\<rparr>))))))"

text \<open>
  \<^verbatim>\<open>
  err_code = adsSyncDelDeviceNotificationReqFct(pAmsAddr, nHNotification)
  callback_store[notification_handle] = None
  if err_code:
      raise ADSError(err_code)
  adsSyncWriteReq(adr, ADSIGRP_SYM_RELEASEHND, 0, user_handle, PLCTYPE_UDINT)
  \<close>
\<close>

definition adsSyncDelDeviceNotificationReq ::
  "'cb env \<Rightarrow> AmsAddr \<Rightarrow> int \<Rightarrow> pyval \<Rightarrow> 'cb world \<Rightarrow> (exn + unit) \<times> 'cb world" where
  "adsSyncDelDeviceNotificationReq E adr notification_handle user_handle =
     win32_only E ''adsSyncDelDeviceNotificationReq'' (\<lambda>w.
       case c_ulong (PyInt notification_handle) of
         Inl e \<Rightarrow> (Inl e, w)
       | Inr nHNotification \<Rightarrow>
           (let (r, w1) = invoke E (AdsSyncDelDeviceNotificationReq (amsAddrStruct adr)
                                      nHNotification) w;
                err_code = sint (ret r);
                w2 = w1\<lparr>callback_store := (callback_store w1)(notification_handle \<mapsto> None)\<rparr>
            in if err_code \<noteq> 0 then (raise_ADSError E err_code, w2)
               else adsSyncWriteReq E adr (PyInt (ADSIGRP_SYM_RELEASEHND E)) (PyInt 0)
                      user_handle PLCTYPE_UDINT w2))"

definition adsSyncSetTimeout :: "'cb env \<Rightarrow> pyval \<Rightarrow> 'cb world \<Rightarrow> (exn + unit) \<times> 'cb world" where
  "adsSyncSetTimeout E nMs =
     win32_only E ''adsSyncSetTimeout'' (\<lambda>w.
       case c_long nMs of
         Inl e \<Rightarrow> (Inl e, w)
       | Inr cms \<Rightarrow>
           (let (r, w1) = invoke E (AdsSyncSetTimeout cms) w;
                err_code = sint (ret r)
            in if err_code \<noteq> 0 then (raise_ADSError E err_code, w1) else (Inr (), w1)))"

section \<open>Notions used to state the properties\<close>

text \<open>What \<open>isinstance(e, ADSError)\<close> tells, and the code that such an error carries.\<close>

fun is_ADSError :: "exn \<Rightarrow> bool" where
  "is_ADSError (ADSErr a) = True"
| "is_ADSError e = False"

fun ads_code :: "exn + 'a \<Rightarrow> int option" where
  "ads_code (Inl (ADSErr a)) = Some (err_code a)"
| "ads_code r = None"

fun returns :: "exn + 'a \<Rightarrow> bool" where
  "returns (Inr v) = True"
| "returns (Inl e) = False"

text \<open>
  The calls made to the DLL between two states, and the status code that the DLL
  returned when exactly one call was made between them.
\<close>

definition issued :: "'cb world \<Rightarrow> 'cb world \<Rightarrow> 'cb call list" where
  "issued w w' = drop (length (calls w)) (calls w')"

definition status_code :: "'cb env \<Rightarrow> 'cb world \<Rightarrow> 'cb world \<Rightarrow> int option" where
  "status_code E w w' =
     (case issued w w' of
        [c] \<Rightarrow> Some (sint (ret (adsDLL E (calls w) c)))
      | _ \<Rightarrow> None)"

text \<open>
  The rule of the request layer for one run of an operation from state \<open>w\<close>: an
  \<open>ADSError\<close> is raised with code \<open>s\<close> exactly when the DLL returned the status
  \<open>s\<close> and \<open>s\<close> is not zero, and the operation returns only after the status zero.
\<close>

definition status_rule :: "'cb env \<Rightarrow> 'cb world \<Rightarrow> (exn + 'a) \<times> 'cb world \<Rightarrow> bool" where
  "status_rule E w out =
     (case out of
        (res, w') \<Rightarrow>
          ads_code res = (case status_code E w w' of
                            Some s \<Rightarrow> if s \<noteq> 0 then Some s else None
                          | None \<Rightarrow> None)
          \<and> (returns res \<longrightarrow> status_code E w w' = Some 0))"

text \<open>The decimal digits that \<open>str\<close> writes denote the number.\<close>

fun digits_value :: "pystr \<Rightarrow> nat" where
  "digits_value [] = 0"
| "digits_value (d # ds) = (d - 48) * 10 ^ length ds + digits_value ds"

text \<open>The error of the platform gate for the function of a given name.\<close>

definition unsupported :: "string \<Rightarrow> exn" where
  "unsupported name =
     RuntimeError (ascii name @ ascii '' is only supported when using the TcAdsDll (win32).'')"

text \<open>
  The requests of the symbolic access, as the functions above make them: resolving a
  name whose encoding is \<open>b\<close>, and releasing the handle whose four bytes are \<open>hb\<close>.
\<close>

definition resolve_request :: "'cb env \<Rightarrow> AmsAddr \<Rightarrow> pystr \<Rightarrow> bytes \<Rightarrow> 'cb call" where
  "resolve_request E adr name b =
     AdsSyncReadWriteReq (amsAddrStruct adr) (word_of_int (ADSIGRP_SYM_HNDBYNAME E)) 0 4
       (of_nat (length name + 1)) (c_char_p_read b (length name + 1))"

definition release_request :: "'cb env \<Rightarrow> AmsAddr \<Rightarrow> bytes \<Rightarrow> 'cb call" where
  "release_request E adr hb =
     AdsSyncWriteReq (amsAddrStruct adr) (word_of_int (ADSIGRP_SYM_RELEASEHND E)) 0 4 hb"

text \<open>The handle that the reply to a resolve request carries: its bytes and its value.\<close>

definition handle_bytes :: "reply \<Rightarrow> bytes" where
  "handle_bytes r = buffer 4 (out1 r)"

definition handle_of :: "reply \<Rightarrow> 32 word" where
  "handle_of r = of_nat (le_nat (handle_bytes r))"

text \<open>The length of the buffer that \<open>adsSyncReadReq\<close> passes for a type.\<close>

definition read_length :: "'cb env \<Rightarrow> plctype \<Rightarrow> nat" where
  "read_length E plcDataType =
     (if plcDataType = PLCTYPE_STRING then STRING_BUFFER E * sizeof_c c_char
      else sizeof plcDataType)"

text \<open>
  The payloads that \<open>adsSyncReadWriteReq\<close> and \<open>adsSyncWriteControlReq\<close> pass (the
  length and the bytes), named as \<open>write_data\<close> names that of \<open>adsSyncWriteReq\<close>.
\<close>

definition readwrite_data :: "pyval \<Rightarrow> plctype \<Rightarrow> exn + nat \<times> bytes" where
  "readwrite_data val plcWriteDataType =
     (if plcWriteDataType = PLCTYPE_STRING then
        (case encode val of
           Inl e \<Rightarrow> Inl e
         | Inr ascii_string \<Rightarrow>
             (case len val of
                Inl e \<Rightarrow> Inl e
              | Inr n \<Rightarrow> Inr (n + 1, c_char_p_read ascii_string (n + 1))))
      else object_payload plcWriteDataType [val])"

definition control_data :: "pyval \<Rightarrow> plctype \<Rightarrow> exn + nat \<times> bytes" where
  "control_data data plcDataType =
     (if plcDataType = PLCTYPE_STRING then string_payload data
      else object_payload plcDataType [data])"

text \<open>
  What the two reading functions make of a reply with the status zero: the decoded
  string (or the error of the decoder) for \<open>PLCTYPE_STRING\<close>, the value read otherwise.
\<close>

definition read_value :: "'cb env \<Rightarrow> plctype \<Rightarrow> reply \<Rightarrow> exn + pyval" where
  "read_value E plcDataType r =
     (let data = buffer (read_length E plcDataType) (out1 r)
      in if plcDataType = PLCTYPE_STRING then
           (case utf8_decode (c_char_p_value data) of
              Inl e \<Rightarrow> Inl e
            | Inr s \<Rightarrow> Inr (PyStr s))
         else Inr (read_result plcDataType data))"

definition readwrite_value :: "plctype \<Rightarrow> reply \<Rightarrow> exn + pyval" where
  "readwrite_value plcReadDataType r =
     (let readData = buffer (sizeof plcReadDataType) (out1 r)
      in if plcReadDataType = PLCTYPE_STRING then
           (case utf8_decode readData of
              Inl e \<Rightarrow> Inl e
            | Inr s \<Rightarrow> Inr (PyStr s))
         else Inr (read_result plcReadDataType readData))"

text \<open>
  The outcome of a request that makes the call \<open>c\<close> from the state \<open>w\<close>: the call is
  added to the calls made; where the DLL returns a status that is not zero, the
  \<open>ADSError\<close> of that status is raised, and where it returns zero the outcome is what
  \<open>on_success\<close> makes of the reply.
\<close>

definition request_outcome ::
  "'cb env \<Rightarrow> 'cb world \<Rightarrow> 'cb call \<Rightarrow> (reply \<Rightarrow> exn + 'a) \<Rightarrow> (exn + 'a) \<times> 'cb world" where
  "request_outcome E w c on_success =
     (let r = adsDLL E (calls w) c
      in (if ret r \<noteq> 0 then raise_ADSError E (sint (ret r)) else on_success r,
          w\<lparr>calls := calls w @ [c]\<rparr>))"

text \<open>
  The encoding of a \<open>FixedString(capacity)\<close> in the words of the specification: at most
  \<open>capacity - 1\<close> bytes of the text, then a null terminator.
\<close>

definition spec_FixedString_encode :: "nat \<Rightarrow> bytes \<Rightarrow> bytes" where
  "spec_FixedString_encode capacity text = take (capacity - 1) text @ [0]"

subsection \<open>A device to run the functions on\<close>

text \<open>
  A DLL that resolves every name to the handle 1001, registers every notification under
  the handle 7, accepts every release, and answers the other requests with the status
  \<open>st\<close> and, for a read, the bytes \<open>payload\<close>.
\<close>

definition demo_dll :: "32 word \<Rightarrow> bytes \<Rightarrow> unit call list \<Rightarrow> unit call \<Rightarrow> reply" where
  "demo_dll st payload history c =
     (case c of
        AdsSyncReadWriteReq a g off rn wn d \<Rightarrow> \<lparr>ret = 0, out1 = le_bytes 4 1001, out2 = []\<rparr>
      | AdsSyncReadReq a g off n \<Rightarrow> \<lparr>ret = st, out1 = payload, out2 = []\<rparr>
      | AdsSyncWriteReq a g off n d \<Rightarrow>
          \<lparr>ret = (if g = 0xF006 then 0 else st), out1 = [], out2 = []\<rparr>
      | AdsSyncWriteControlReq a s1 s2 n d \<Rightarrow> \<lparr>ret = st, out1 = [], out2 = []\<rparr>
      | AdsSyncAddDeviceNotificationReq a g off attr f u \<Rightarrow>
          \<lparr>ret = st, out1 = le_bytes 4 7, out2 = []\<rparr>
      | AdsSyncDelDeviceNotificationReq a n \<Rightarrow> \<lparr>ret = st, out1 = [], out2 = []\<rparr>
      | _ \<Rightarrow> \<lparr>ret = 0, out1 = [], out2 = []\<rparr>)"

definition demo_env :: "bool \<Rightarrow> 32 word \<Rightarrow> bytes \<Rightarrow> unit env" where
  "demo_env win st payload =
     \<lparr>platform_is_windows = win,
      ERROR_CODES = [1861 \<mapsto> ascii ''timeout elapsed''],
      ADSIGRP_SYM_HNDBYNAME = 0xF003,
      ADSIGRP_SYM_VALBYHND = 0xF005,
      ADSIGRP_SYM_RELEASEHND = 0xF006,
      STRING_BUFFER = 20,
      adsDLL = demo_dll st payload\<rparr>"

definition demo_adr :: AmsAddr where
  "demo_adr = AmsAddr \<lparr>netId = [5, 33, 160, 2, 1, 1], port = 851\<rparr>"

definition demo_attrib :: NotificationAttrib where
  "demo_attrib =
     NotificationAttrib \<lparr>cbLength = 4, nTransMode = 4, nMaxDelay = 0, nCycleTime = 0\<rparr>"

definition w0 :: "unit world" where
  "w0 = \<lparr>calls = [], callback_store = Map.empty\<rparr>"

text \<open>The bytes of the second scenario of the specification.\<close>

definition device1_buffer :: bytes where
  "device1_buffer = ascii_bytes ''Device1'' @ [0] @ ascii_bytes ''garbage''"

section \<open>Auxiliary facts\<close>

lemma unat_byte: "unat (b::byte) < 256"
  using unsigned_less [of b, where 'a=nat] by simp

lemma le_nat_bound: "le_nat bs < 256 ^ length bs"
proof (induction bs)
  case Nil
  show ?case by simp
next
  case (Cons b bs)
  have "unat b + 256 * le_nat bs < 256 + 256 * le_nat bs"
    using unat_byte [of b] by simp
  also have "\<dots> = 256 * (le_nat bs + 1)" by simp
  also have "\<dots> \<le> 256 * 256 ^ length bs"
    using Cons.IH by (simp add: Suc_leI del: mult_Suc_right)
  finally show ?case by simp
qed

lemma length_buffer: "length (buffer n bs) = n"
  by (simp add: buffer_def)

lemma le_bytes_le_nat: "le_bytes (length bs) (le_nat bs) = bs"
proof (induction bs)
  case Nil
  show ?case by simp
next
  case (Cons b bs)
  have "(unat b + 256 * le_nat bs) mod 256 = unat b"
    using unat_byte [of b] by simp
  then have 1: "(of_nat ((unat b + 256 * le_nat bs) mod 256) :: byte) = b" by simp
  have 2: "(unat b + 256 * le_nat bs) div 256 = le_nat bs"
    using unat_byte [of b] by simp
  have "le_bytes (Suc (length bs)) (unat b + 256 * le_nat bs) = b # bs"
    unfolding le_bytes.simps 1 2 Cons.IH ..
  then show ?case by simp
qed

text \<open>No step of marshalling or decoding raises an \<open>ADSError\<close>.\<close>

lemma ads_code_None: "\<not> is_ADSError e \<Longrightarrow> ads_code (Inl e) = None"
  by (cases e) simp_all

lemma c_ulong_exn: "c_ulong v = Inl e \<Longrightarrow> \<not> is_ADSError e"
  by (cases v) (auto split: if_splits)

lemma utf8_char_exn: "utf8_char cp = Inl e \<Longrightarrow> \<not> is_ADSError e"
  by (auto simp: utf8_char_def split: if_splits)

lemma utf8_encode_exn: "utf8_encode s = Inl e \<Longrightarrow> \<not> is_ADSError e"
  by (induction s) (auto split: sum.splits dest: utf8_char_exn)

lemma encode_exn: "encode v = Inl e \<Longrightarrow> \<not> is_ADSError e"
  by (cases v) (auto dest: utf8_encode_exn)

lemma len_exn: "len v = Inl e \<Longrightarrow> \<not> is_ADSError e"
  by (cases v) auto

lemma utf8_decode_exn: "utf8_decode bs = Inl e \<Longrightarrow> \<not> is_ADSError e"
proof (induction bs rule: utf8_decode.induct)
  case (1 bs)
  show ?case
  proof (cases "utf8_step bs")
    case None
    with "1.prems" show ?thesis
      by (subst (asm) utf8_decode.simps) (auto split: if_splits)
  next
    case (Some p)
    obtain cp n where p: "p = (cp, n)" by (cases p)
    from "1.prems" Some p have ne: "bs \<noteq> []" and "utf8_decode (drop n bs) = Inl e"
      by (subst (asm) utf8_decode.simps, auto split: if_splits sum.splits)+
    with "1.IH" [OF ne Some p [symmetric]] show ?thesis by simp
  qed
qed

lemma c_set_exn: "c_set c v = Inl e \<Longrightarrow> \<not> is_ADSError e"
  by (cases "(c, v)" rule: c_set.cases) (auto split: if_splits list.splits)

lemma array_init_exn: "array_init c n vs = Inl e \<Longrightarrow> \<not> is_ADSError e"
  by (induction c n vs rule: array_init.induct) (auto split: sum.splits dest: c_set_exn)

lemma ctypes_new_exn: "ctypes_new ty vs = Inl e \<Longrightarrow> \<not> is_ADSError e"
  by (cases "(ty, vs)" rule: ctypes_new.cases) (auto dest: c_set_exn array_init_exn)

lemma unpack_exn: "unpack v = Inl e \<Longrightarrow> \<not> is_ADSError e"
  by (cases v) auto

lemma string_payload_exn: "string_payload v = Inl e \<Longrightarrow> \<not> is_ADSError e"
  by (auto simp: string_payload_def Let_def split: sum.splits dest: encode_exn)

lemma object_payload_exn: "object_payload ty vs = Inl e \<Longrightarrow> \<not> is_ADSError e"
  by (auto simp: object_payload_def split: sum.splits dest: ctypes_new_exn)

lemma write_data_exn: "write_data v ty = Inl e \<Longrightarrow> \<not> is_ADSError e"
  by (auto simp: write_data_def split: if_splits sum.splits
      dest: string_payload_exn object_payload_exn unpack_exn)

lemma ads_code_raise [simp]: "ads_code (raise_ADSError E s) = Some s"
  by (simp add: raise_ADSError_def ADSError_init_def)

lemma returns_raise [simp]: "\<not> returns (raise_ADSError E s)"
  by (simp add: raise_ADSError_def)

lemma status_code_same [simp]: "status_code E w w = None"
  by (simp add: status_code_def issued_def)

lemma status_code_invoke [simp]:
  "status_code E w (w\<lparr>calls := calls w @ [c]\<rparr>) = Some (sint (ret (adsDLL E (calls w) c)))"
  by (simp add: status_code_def issued_def)

lemma adsSyncWriteReq_rule: "status_rule E w (adsSyncWriteReq E adr g off v ty w)"
  by (simp add: adsSyncWriteReq_def win32_only_def invoke_def Let_def status_rule_def
      ads_code_None c_ulong_exn write_data_exn split: sum.splits prod.splits)

lemma adsSyncWriteControlReq_rule:
  "status_rule E w (adsSyncWriteControlReq E adr s1 s2 v ty w)"
  by (simp add: adsSyncWriteControlReq_def win32_only_def invoke_def Let_def status_rule_def
      ads_code_None c_ulong_exn string_payload_exn object_payload_exn
      split: sum.splits prod.splits)

lemma adsSyncReadReq_rule: "status_rule E w (adsSyncReadReq E adr g off ty w)"
  by (simp add: adsSyncReadReq_def win32_only_def invoke_def Let_def status_rule_def
      ads_code_None c_ulong_exn utf8_decode_exn split: sum.splits prod.splits)

lemma adsSyncReadWriteReq_rule:
  "status_rule E w (adsSyncReadWriteReq E adr g off rty v ty w)"
  by (simp add: adsSyncReadWriteReq_def win32_only_def invoke_def Let_def status_rule_def
      ads_code_None c_ulong_exn utf8_decode_exn encode_exn len_exn object_payload_exn
      split: sum.splits prod.splits)

section \<open>The platform gate\<close>

lemma win32_only_gate:
  "\<not> platform_is_windows E \<Longrightarrow> win32_only E name fn w = (Inl (unsupported name), w)"
  by (simp add: win32_only_def unsupported_def)

text \<open>
  Claim C7. Where the platform is not Windows, every decorated function of the module,
  whatever its arguments, raises the \<open>RuntimeError\<close> that names the function, and
  leaves the state as it was: no call reaches the DLL and \<open>callback_store\<close> is
  unchanged.
\<close>

theorem unsupported_platform_gate:
  assumes "\<not> platform_is_windows E"
  shows "adsGetDllVersion E w = (Inl (unsupported ''adsGetDllVersion''), w)
    \<and> adsPortOpen E w = (Inl (unsupported ''adsPortOpen''), w)
    \<and> adsPortClose E w = (Inl (unsupported ''adsPortClose''), w)
    \<and> adsGetLocalAddress E w = (Inl (unsupported ''adsGetLocalAddress''), w)
    \<and> adsSyncReadStateReq E adr w = (Inl (unsupported ''adsSyncReadStateReq''), w)
    \<and> adsSyncReadDeviceInfoReq E adr w = (Inl (unsupported ''adsSyncReadDeviceInfoReq''), w)
    \<and> adsSyncWriteControlReq E adr adsState deviceState data plcDataType w
        = (Inl (unsupported ''adsSyncWriteControlReq''), w)
    \<and> adsSyncWriteReq E adr indexGroup indexOffset val plcDataType w
        = (Inl (unsupported ''adsSyncWriteReq''), w)
    \<and> adsSyncReadWriteReq E adr indexGroup indexOffset plcReadDataType val plcWriteDataType w
        = (Inl (unsupported ''adsSyncReadWriteReq''), w)
    \<and> adsSyncReadReq E adr indexGroup indexOffset plcDataType w
        = (Inl (unsupported ''adsSyncReadReq''), w)
    \<and> adsSyncReadByName E adr dataName plcDataType w
        = (Inl (unsupported ''adsSyncReadByName''), w)
    \<and> adsSyncWriteByName E adr dataName val plcDataType w
        = (Inl (unsupported ''adsSyncWriteByName''), w)
    \<and> adsSyncAddDeviceNotificationReq E adr dataName pNoteAttrib callback user_handle w
        = (Inl (unsupported ''adsSyncAddDeviceNotificationReq''), w)
    \<and> adsSyncDelDeviceNotificationReq E adr notification_handle user_handle w
        = (Inl (unsupported ''adsSyncDelDeviceNotificationReq''), w)
    \<and> adsSyncSetTimeout E nMs w = (Inl (unsupported ''adsSyncSetTimeout''), w)"
  unfolding adsGetDllVersion_def adsPortOpen_def adsPortClose_def adsGetLocalAddress_def
    adsSyncReadStateReq_def adsSyncReadDeviceInfoReq_def adsSyncWriteControlReq_def
    adsSyncWriteReq_def adsSyncReadWriteReq_def adsSyncReadReq_def adsSyncReadByName_def
    adsSyncWriteByName_def adsSyncAddDeviceNotificationReq_def
    adsSyncDelDeviceNotificationReq_def adsSyncSetTimeout_def
  by (simp only: win32_only_gate [OF assms] simp_thms)

theorem unsupported_platform_gate_witness:
  "\<not> platform_is_windows (demo_env False 0 [])
   \<and> adsSyncReadByName (demo_env False 0 []) demo_adr (PyStr (ascii ''MAIN.bVar''))
        (Simple c_bool) w0
      = (Inl (RuntimeError
               (ascii ''adsSyncReadByName is only supported when using the TcAdsDll (win32).'')),
         w0)
   \<and> adsSyncSetTimeout (demo_env False 0 []) (PyInt 5000) w0
      = (Inl (RuntimeError
               (ascii ''adsSyncSetTimeout is only supported when using the TcAdsDll (win32).'')),
         w0)"
proof -
  have gate: "\<not> platform_is_windows (demo_env False 0 [])"
    by (simp add: demo_env_def)
  show ?thesis
    using gate
      unsupported_platform_gate [OF gate, where w = w0 and adr = demo_adr
        and dataName = "PyStr (ascii ''MAIN.bVar'')" and plcDataType = "Simple c_bool"
        and nMs = "PyInt 5000"]
    by (simp add: unsupported_def ascii_def)
qed

section \<open>The error value\<close>

lemma digits_value_append:
  "digits_value (xs @ [d]) = 10 * digits_value xs + (d - 48)"
  by (induction xs) (simp_all add: algebra_simps)

lemma digits_value_digits: "digits_value (digits n) = n"
proof (induction n rule: digits.induct)
  case (1 n)
  show ?case
  proof (cases "n < 10")
    case True
    then show ?thesis by (subst digits.simps) simp
  next
    case False
    with 1 have "digits_value (digits (n div 10)) = n div 10" by simp
    with False show ?thesis
      by (subst digits.simps) (simp add: digits_value_append)
  qed
qed

lemma sublist_mid: "sublist ys (xs @ ys @ zs)"
  unfolding sublist_def by blast

text \<open>
  Claim C6. For every error code and every table, \<open>ADSError(err_code)\<close> is an error
  value that carries the code (the constructor is a total function, so it cannot fail).
  Where the table has the code, the message is the description of the table, a space and
  the decimal code in parentheses; where it has not, the message is "Unknown Error" with
  the decimal code in parentheses. Either way the message contains the digits of the
  code (a minus sign and the decimal digits of its absolute value where it is negative),
  and with a table entry it contains the description.
\<close>

theorem ADSError_always_valid:
  "err_code (ADSError_init table code) = code
   \<and> str_int code = (if code < 0 then [45] else []) @ digits (nat \<bar>code\<bar>)
   \<and> digits_value (digits (nat \<bar>code\<bar>)) = nat \<bar>code\<bar>
   \<and> sublist (str_int code) (msg (ADSError_init table code))
   \<and> (case table code of
        Some description \<Rightarrow>
          msg (ADSError_init table code)
            = description @ ascii '' ('' @ str_int code @ ascii '')''
          \<and> sublist description (msg (ADSError_init table code))
      | None \<Rightarrow>
          msg (ADSError_init table code)
            = ascii ''Unknown Error ('' @ str_int code @ ascii '')''
          \<and> sublist (ascii ''Unknown Error'') (msg (ADSError_init table code)))"
proof -
  have 1: "sublist (str_int code) (d @ ascii '' ('' @ str_int code @ ascii '')'')" for d
    using sublist_mid [of "str_int code" "d @ ascii '' (''" "ascii '')''"] by simp
  have 2: "sublist d (d @ zs)" for d zs :: pystr
    using sublist_mid [of d "[]" zs] by simp
  have 3: "sublist (str_int code) (ascii ''Unknown Error ('' @ str_int code @ ascii '')'')"
    by (rule sublist_mid)
  have 4: "sublist (ascii ''Unknown Error'') (ascii ''Unknown Error ('' @ zs)" for zs
    using sublist_mid [of "ascii ''Unknown Error''" "[]" "ascii '' ('' @ zs"]
    by (simp add: ascii_def)
  have 5: "str_int code = (if code < 0 then [45] else []) @ digits (nat \<bar>code\<bar>)"
    by (simp add: str_int_def)
  show ?thesis
    by (cases "table code") (simp_all add: ADSError_init_def 1 2 3 4 5 [symmetric] digits_value_digits)
qed

theorem ADSError_always_valid_witness:
  "msg (ADSError_init [1861 \<mapsto> ascii ''timeout elapsed''] 1861)
     = ascii ''timeout elapsed (1861)''
   \<and> msg (ADSError_init [1861 \<mapsto> ascii ''timeout elapsed''] (- 5))
     = ascii ''Unknown Error (-5)''"
  using ADSError_always_valid [of "[1861 \<mapsto> ascii ''timeout elapsed'']" 1861]
    ADSError_always_valid [of "[1861 \<mapsto> ascii ''timeout elapsed'']" "- 5"]
  by (simp add: str_int_def digits.simps ascii_def)

section \<open>The requests that the functions make on Windows\<close>

lemma sint_ret_0 [simp]: "sint (x :: 32 word) = 0 \<longleftrightarrow> x = 0"
  by (rule signed_eq_0_iff)

lemma uint_ret_0 [simp]: "uint (x :: 32 word) = 0 \<longleftrightarrow> x = 0"
  by (rule unsigned_eq_0_iff)

lemma le_nat_buffer4: "le_nat (buffer 4 bs) < 2 ^ 32"
  using le_nat_bound [of "buffer 4 bs"] by (simp add: length_buffer)

lemma unat_handle_of: "unat (handle_of r) = le_nat (handle_bytes r)"
proof -
  have "le_nat (buffer 4 (out1 r)) < 2 ^ LENGTH(32)"
    using le_nat_buffer4 [of "out1 r"] by simp
  then have "unat (of_nat (le_nat (buffer 4 (out1 r))) :: 32 word) = le_nat (buffer 4 (out1 r))"
    by (rule of_nat_inverse [OF refl])
  then show ?thesis by (simp add: handle_of_def handle_bytes_def)
qed

lemma uint_handle_of: "uint (handle_of r) = int (le_nat (handle_bytes r))"
  by (simp add: uint_nat unat_handle_of)

lemma le_bytes_handle_of: "le_bytes 4 (unat (handle_of r)) = handle_bytes r"
  using le_bytes_le_nat [of "handle_bytes r"]
  by (simp add: unat_handle_of) (simp add: handle_bytes_def length_buffer)

lemma write_data_handle:
  "write_data (PyInt (uint (handle_of r))) PLCTYPE_UDINT = Inr (4, handle_bytes r)"
proof -
  have "uint (handle_of r) mod 2 ^ 32 = uint (handle_of r)"
    using uint_bounded [of "handle_of r"] by simp
  then have "c_set c_uint32 (PyInt (uint (handle_of r))) = Inr (handle_bytes r)"
    using le_bytes_handle_of [of r] by simp
  then show ?thesis
    by (simp add: write_data_def object_payload_def handle_bytes_def length_buffer)
qed

lemma adsSyncReadWriteReq_resolve:
  assumes "platform_is_windows E" and "utf8_encode name = Inr b"
  shows "adsSyncReadWriteReq E adr (PyInt (ADSIGRP_SYM_HNDBYNAME E)) (PyInt 0) PLCTYPE_UDINT
           (PyStr name) PLCTYPE_STRING w
         = (let c = resolve_request E adr name b; r = adsDLL E (calls w) c
            in if ret r \<noteq> 0
               then (raise_ADSError E (sint (ret r)), w\<lparr>calls := calls w @ [c]\<rparr>)
               else (Inr (PyInt (uint (handle_of r))), w\<lparr>calls := calls w @ [c]\<rparr>))"
  using assms
  by (simp add: adsSyncReadWriteReq_def win32_only_def invoke_def Let_def resolve_request_def
      read_result_def uint_handle_of handle_bytes_def)

lemma adsSyncReadReq_request:
  assumes "platform_is_windows E"
  shows "adsSyncReadReq E adr (PyInt g) (PyInt off) ty w
         = (let c = AdsSyncReadReq (amsAddrStruct adr) (word_of_int g) (word_of_int off)
                      (of_nat (read_length E ty));
                r = adsDLL E (calls w) c;
                data = buffer (read_length E ty) (out1 r)
            in if ret r \<noteq> 0
               then (raise_ADSError E (sint (ret r)), w\<lparr>calls := calls w @ [c]\<rparr>)
               else if ty = PLCTYPE_STRING then
                 (case utf8_decode (c_char_p_value data) of
                    Inl e \<Rightarrow> (Inl e, w\<lparr>calls := calls w @ [c]\<rparr>)
                  | Inr s \<Rightarrow> (Inr (PyStr s), w\<lparr>calls := calls w @ [c]\<rparr>))
               else (Inr (read_result ty data), w\<lparr>calls := calls w @ [c]\<rparr>))"
  using assms
  by (simp add: adsSyncReadReq_def win32_only_def invoke_def Let_def read_length_def)

lemma adsSyncWriteReq_request:
  assumes "platform_is_windows E" and "write_data v ty = Inr (n, d)"
  shows "adsSyncWriteReq E adr (PyInt g) (PyInt off) v ty w
         = (let c = AdsSyncWriteReq (amsAddrStruct adr) (word_of_int g) (word_of_int off)
                      (of_nat n) d;
                r = adsDLL E (calls w) c
            in if ret r \<noteq> 0
               then (raise_ADSError E (sint (ret r)), w\<lparr>calls := calls w @ [c]\<rparr>)
               else (Inr (), w\<lparr>calls := calls w @ [c]\<rparr>))"
  using assms
  by (simp add: adsSyncWriteReq_def win32_only_def invoke_def Let_def)

lemma adsSyncWriteReq_release:
  assumes "platform_is_windows E"
  shows "adsSyncWriteReq E adr (PyInt (ADSIGRP_SYM_RELEASEHND E)) (PyInt 0)
           (PyInt (uint (handle_of r1))) PLCTYPE_UDINT w
         = (let c = release_request E adr (handle_bytes r1); r = adsDLL E (calls w) c
            in if ret r \<noteq> 0
               then (raise_ADSError E (sint (ret r)), w\<lparr>calls := calls w @ [c]\<rparr>)
               else (Inr (), w\<lparr>calls := calls w @ [c]\<rparr>))"
  using adsSyncWriteReq_request [OF assms write_data_handle]
  by (simp add: release_request_def)

lemma adsSyncWriteReq_store:
  "callback_store (snd (adsSyncWriteReq E adr g off v ty w)) = callback_store w"
  by (simp add: adsSyncWriteReq_def win32_only_def invoke_def Let_def
      split: sum.splits prod.splits)

lemma adsSyncWriteReq_calls:
  "calls (snd (adsSyncWriteReq E adr g off v ty w)) = calls w
   \<or> (\<exists>c. calls (snd (adsSyncWriteReq E adr g off v ty w)) = calls w @ [c])"
  by (simp add: adsSyncWriteReq_def win32_only_def invoke_def Let_def
      split: sum.splits prod.splits)

section \<open>The request layer\<close>

lemma adsSyncReadReq_outcome:
  assumes "platform_is_windows E" and "c_ulong indexGroup = Inr gw"
    and "c_ulong indexOffset = Inr ow"
  shows "adsSyncReadReq E adr indexGroup indexOffset plcDataType w
         = request_outcome E w
             (AdsSyncReadReq (amsAddrStruct adr) gw ow (of_nat (read_length E plcDataType)))
             (read_value E plcDataType)"
  using assms
  by (simp add: adsSyncReadReq_def win32_only_def invoke_def Let_def request_outcome_def
      read_value_def read_length_def split: sum.splits)

lemma adsSyncWriteReq_outcome:
  assumes "platform_is_windows E" and "c_ulong indexGroup = Inr gw"
    and "c_ulong indexOffset = Inr ow" and "write_data val plcDataType = Inr (n, d)"
  shows "adsSyncWriteReq E adr indexGroup indexOffset val plcDataType w
         = request_outcome E w (AdsSyncWriteReq (amsAddrStruct adr) gw ow (of_nat n) d)
             (\<lambda>r. Inr ())"
  using assms
  by (simp add: adsSyncWriteReq_def win32_only_def invoke_def Let_def request_outcome_def)

lemma adsSyncReadWriteReq_outcome:
  assumes "platform_is_windows E" and "c_ulong indexGroup = Inr gw"
    and "c_ulong indexOffset = Inr ow" and "readwrite_data val plcWriteDataType = Inr (n, d)"
  shows "adsSyncReadWriteReq E adr indexGroup indexOffset plcReadDataType val
           plcWriteDataType w
         = request_outcome E w
             (AdsSyncReadWriteReq (amsAddrStruct adr) gw ow (of_nat (sizeof plcReadDataType))
                (of_nat n) d)
             (readwrite_value plcReadDataType)"
  using assms
  by (simp add: adsSyncReadWriteReq_def win32_only_def invoke_def Let_def request_outcome_def
      readwrite_value_def readwrite_data_def split: sum.splits)

lemma adsSyncWriteControlReq_outcome:
  assumes "platform_is_windows E" and "c_ulong adsState = Inr sw"
    and "c_ulong deviceState = Inr dw" and "control_data data plcDataType = Inr (n, d)"
  shows "adsSyncWriteControlReq E adr adsState deviceState data plcDataType w
         = request_outcome E w (AdsSyncWriteControlReq (amsAddrStruct adr) sw dw (of_nat n) d)
             (\<lambda>r. Inr ())"
  using assms
  by (simp add: adsSyncWriteControlReq_def win32_only_def invoke_def Let_def
      request_outcome_def control_data_def)

text \<open>
  Claim C5. For each of the four operations of the request layer, whatever the arguments
  and whatever the DLL answers: the operation raises an \<open>ADSError\<close> with code \<open>s\<close>
  if and only if it made its call to the DLL and the DLL returned the status \<open>s\<close>,
  not zero; and it returns only if the DLL returned the status zero. On Windows, with
  arguments that can be passed to the DLL (index group and offset, or the two states,
  that are integers, and a value that fits the type), each operation does make its call,
  once, and its outcome is decided by the status of that call: the \<open>ADSError\<close> of the
  status where it is not zero, and otherwise the value read (for a string, the decoded
  text or the error of the decoder) or the plain return of a write.
\<close>

theorem request_layer_status:
  "status_rule E w (adsSyncReadReq E adr indexGroup indexOffset plcDataType w)
   \<and> status_rule E w (adsSyncWriteReq E adr indexGroup indexOffset val plcDataType w)
   \<and> status_rule E w
        (adsSyncReadWriteReq E adr indexGroup indexOffset plcReadDataType val
           plcWriteDataType w)
   \<and> status_rule E w (adsSyncWriteControlReq E adr adsState deviceState data plcDataType w)
   \<and> (platform_is_windows E \<and> c_ulong indexGroup = Inr gw \<and> c_ulong indexOffset = Inr ow
        \<longrightarrow>
          adsSyncReadReq E adr indexGroup indexOffset plcDataType w
            = request_outcome E w
                (AdsSyncReadReq (amsAddrStruct adr) gw ow (of_nat (read_length E plcDataType)))
                (read_value E plcDataType)
          \<and> (write_data val plcDataType = Inr (na, da) \<longrightarrow>
                adsSyncWriteReq E adr indexGroup indexOffset val plcDataType w
                  = request_outcome E w
                      (AdsSyncWriteReq (amsAddrStruct adr) gw ow (of_nat na) da)
                      (\<lambda>r. Inr ()))
          \<and> (readwrite_data val plcWriteDataType = Inr (nb, db) \<longrightarrow>
                adsSyncReadWriteReq E adr indexGroup indexOffset plcReadDataType val
                  plcWriteDataType w
                  = request_outcome E w
                      (AdsSyncReadWriteReq (amsAddrStruct adr) gw ow
                         (of_nat (sizeof plcReadDataType)) (of_nat nb) db)
                      (readwrite_value plcReadDataType)))
   \<and> (platform_is_windows E \<and> c_ulong adsState = Inr sw \<and> c_ulong deviceState = Inr dw
        \<and> control_data data plcDataType = Inr (nc, dc) \<longrightarrow>
          adsSyncWriteControlReq E adr adsState deviceState data plcDataType w
            = request_outcome E w
                (AdsSyncWriteControlReq (amsAddrStruct adr) sw dw (of_nat nc) dc)
                (\<lambda>r. Inr ()))"
  using adsSyncReadReq_rule [of E w adr indexGroup indexOffset plcDataType]
    adsSyncWriteReq_rule [of E w adr indexGroup indexOffset val plcDataType]
    adsSyncReadWriteReq_rule [of E w adr indexGroup indexOffset plcReadDataType val
      plcWriteDataType]
    adsSyncWriteControlReq_rule [of E w adr adsState deviceState data plcDataType]
    adsSyncReadReq_outcome [of E indexGroup gw indexOffset ow adr plcDataType w]
    adsSyncWriteReq_outcome [of E indexGroup gw indexOffset ow val plcDataType na da adr w]
    adsSyncReadWriteReq_outcome [of E indexGroup gw indexOffset ow val plcWriteDataType nb db
      adr plcReadDataType w]
    adsSyncWriteControlReq_outcome [of E adsState sw deviceState dw data plcDataType nc dc
      adr w]
  by blast

theorem request_layer_status_witness:
  "ads_code (fst (adsSyncWriteReq (demo_env True 1861 []) demo_adr (PyInt 0x4020) (PyInt 0)
                    (PyInt 3) (Simple c_int16) w0)) = Some 1861
   \<and> status_code (demo_env True 0 [42, 0]) w0
        (snd (adsSyncReadReq (demo_env True 0 [42, 0]) demo_adr (PyInt 0x4020) (PyInt 0)
                (Simple c_int16) w0)) = Some 0
   \<and> fst (adsSyncReadReq (demo_env True 0 [42, 0]) demo_adr (PyInt 0x4020) (PyInt 0)
            (Simple c_int16) w0) = Inr (PyInt 42)
   \<and> adsSyncReadReq (demo_env True 1861 []) demo_adr (PyInt 0x4020) (PyInt 0)
        (Simple c_int16) w0
      = (raise_ADSError (demo_env True 1861 []) 1861,
         w0\<lparr>calls := [AdsSyncReadReq (amsAddrStruct demo_adr) 0x4020 0 2]\<rparr>)
   \<and> adsSyncWriteReq (demo_env True 1861 []) demo_adr (PyInt 0x4020) (PyInt 0) (PyInt 3)
        (Simple c_int16) w0
      = (raise_ADSError (demo_env True 1861 []) 1861,
         w0\<lparr>calls := [AdsSyncWriteReq (amsAddrStruct demo_adr) 0x4020 0 2 [3, 0]]\<rparr>)
   \<and> adsSyncReadWriteReq (demo_env True 1861 []) demo_adr (PyInt 0x4020) (PyInt 0)
        PLCTYPE_UDINT (PyInt 3) (Simple c_int16) w0
      = (Inr (PyInt 1001),
         w0\<lparr>calls := [AdsSyncReadWriteReq (amsAddrStruct demo_adr) 0x4020 0 4 2 [3, 0]]\<rparr>)
   \<and> adsSyncWriteControlReq (demo_env True 1861 []) demo_adr (PyInt 5) (PyInt 0) (PyInt 3)
        (Simple c_int16) w0
      = (raise_ADSError (demo_env True 1861 []) 1861,
         w0\<lparr>calls := [AdsSyncWriteControlReq (amsAddrStruct demo_adr) 5 0 2 [3, 0]]\<rparr>)"
proof -
  let ?E = "demo_env True 1861 []"
  let ?out = "adsSyncWriteReq ?E demo_adr (PyInt 0x4020) (PyInt 0) (PyInt 3) (Simple c_int16) w0"
  let ?F = "demo_env True 0 [42, 0]"
  let ?rd = "adsSyncReadReq ?F demo_adr (PyInt 0x4020) (PyInt 0) (Simple c_int16) w0"
  have sc: "status_code ?E w0 (snd ?out) = Some 1861"
    by (simp add: adsSyncWriteReq_def win32_only_def demo_env_def invoke_def write_data_def
        object_payload_def demo_dll_def w0_def status_code_def issued_def)
  note at_E = request_layer_status [where E = ?E and w = w0 and adr = demo_adr
      and indexGroup = "PyInt 0x4020" and indexOffset = "PyInt 0" and val = "PyInt 3"
      and plcDataType = "Simple c_int16" and plcReadDataType = PLCTYPE_UDINT
      and plcWriteDataType = "Simple c_int16" and gw = "0x4020" and ow = 0
      and na = 2 and da = "[3, 0]" and nb = 2 and db = "[3, 0]"
      and adsState = "PyInt 5" and deviceState = "PyInt 0" and data = "PyInt 3"
      and sw = 5 and dw = 0 and nc = 2 and dc = "[3, 0]"]
  have "status_rule ?E w0 ?out"
    using at_E by simp
  with sc have 1: "ads_code (fst ?out) = Some 1861"
    by (simp add: status_rule_def split: prod.splits)
  have 2: "fst ?rd = Inr (PyInt 42)"
    by (simp add: adsSyncReadReq_def win32_only_def demo_env_def invoke_def demo_dll_def
        w0_def read_result_def buffer_def signed_of_def)
  have "status_rule ?F w0 ?rd"
    using request_layer_status [where E = ?F and w = w0 and adr = demo_adr
        and indexGroup = "PyInt 0x4020" and indexOffset = "PyInt 0" and val = "PyInt 3"
        and plcDataType = "Simple c_int16"]
    by simp
  with 2 have 3: "status_code ?F w0 (snd ?rd) = Some 0"
    by (simp add: status_rule_def split: prod.splits)
  have win: "platform_is_windows ?E"
    by (simp add: demo_env_def)
  have wd: "write_data (PyInt 3) (Simple c_int16) = Inr (2, [3, 0])"
    and rwd: "readwrite_data (PyInt 3) (Simple c_int16) = Inr (2, [3, 0])"
    and cd: "control_data (PyInt 3) (Simple c_int16) = Inr (2, [3, 0])"
    and rv: "readwrite_value PLCTYPE_UDINT \<lparr>ret = 0, out1 = le_bytes 4 1001, out2 = []\<rparr>
             = Inr (PyInt 1001)"
    and rl: "read_length ?E (Simple c_int16) = 2"
    by code_simp+
  have 4: "adsSyncReadReq ?E demo_adr (PyInt 0x4020) (PyInt 0) (Simple c_int16) w0
           = (raise_ADSError ?E 1861,
              w0\<lparr>calls := [AdsSyncReadReq (amsAddrStruct demo_adr) 0x4020 0 2]\<rparr>)"
    using at_E win
    by (simp add: request_outcome_def rl) (simp add: demo_env_def demo_dll_def w0_def)
  have 5: "?out = (raise_ADSError ?E 1861,
              w0\<lparr>calls := [AdsSyncWriteReq (amsAddrStruct demo_adr) 0x4020 0 2 [3, 0]]\<rparr>)"
    using at_E win wd
    by (simp add: request_outcome_def) (simp add: demo_env_def demo_dll_def w0_def)
  have 6: "adsSyncReadWriteReq ?E demo_adr (PyInt 0x4020) (PyInt 0) PLCTYPE_UDINT (PyInt 3)
             (Simple c_int16) w0
           = (Inr (PyInt 1001),
              w0\<lparr>calls := [AdsSyncReadWriteReq (amsAddrStruct demo_adr) 0x4020 0 4 2
                              [3, 0]]\<rparr>)"
    using at_E win rwd
    by (simp add: request_outcome_def) (simp add: demo_env_def demo_dll_def w0_def rv)
  have 7: "adsSyncWriteControlReq ?E demo_adr (PyInt 5) (PyInt 0) (PyInt 3) (Simple c_int16) w0
           = (raise_ADSError ?E 1861,
              w0\<lparr>calls := [AdsSyncWriteControlReq (amsAddrStruct demo_adr) 5 0 2
                              [3, 0]]\<rparr>)"
    using at_E win cd
    by (simp add: request_outcome_def) (simp add: demo_env_def demo_dll_def w0_def)
  from 1 2 3 4 5 6 7 show ?thesis by simp
qed

section \<open>Symbolic access by name\<close>

lemma read_by_name_failure:
  assumes "platform_is_windows E" and "utf8_encode name = Inr b"
    and "ret (adsDLL E (calls w) (resolve_request E adr name b)) = 0"
  shows "let c1 = resolve_request E adr name b;
             r1 = adsDLL E (calls w) c1;
             c2 = AdsSyncReadReq (amsAddrStruct adr) (word_of_int (ADSIGRP_SYM_VALBYHND E))
                    (handle_of r1) (of_nat (read_length E plcDataType));
             r2 = adsDLL E (calls w @ [c1]) c2
         in (ret r2 \<noteq> 0 \<longrightarrow>
               adsSyncReadByName E adr (PyStr name) plcDataType w
                 = (raise_ADSError E (sint (ret r2)), w\<lparr>calls := calls w @ [c1, c2]\<rparr>))
            \<and> (ret r2 = 0 \<longrightarrow>
                 (plcDataType = PLCTYPE_STRING \<longrightarrow>
                    returns (utf8_decode (c_char_p_value
                               (buffer (read_length E plcDataType) (out1 r2))))) \<longrightarrow>
                 calls (snd (adsSyncReadByName E adr (PyStr name) plcDataType w))
                   = calls w @ [c1, c2, release_request E adr (handle_bytes r1)])"
  using assms
  by (simp add: adsSyncReadByName_def win32_only_def adsSyncReadWriteReq_resolve
      adsSyncReadReq_request adsSyncWriteReq_release Let_def raise_ADSError_def
      split: sum.splits)

lemma write_by_name_failure:
  assumes "platform_is_windows E" and "utf8_encode name = Inr b"
    and "ret (adsDLL E (calls w) (resolve_request E adr name b)) = 0"
    and "write_data val plcDataType = Inr (n, d)"
  shows "let c1 = resolve_request E adr name b;
             r1 = adsDLL E (calls w) c1;
             c2 = AdsSyncWriteReq (amsAddrStruct adr) (word_of_int (ADSIGRP_SYM_VALBYHND E))
                    (handle_of r1) (of_nat n) d;
             r2 = adsDLL E (calls w @ [c1]) c2
         in (ret r2 \<noteq> 0 \<longrightarrow>
               adsSyncWriteByName E adr (PyStr name) val plcDataType w
                 = (raise_ADSError E (sint (ret r2)), w\<lparr>calls := calls w @ [c1, c2]\<rparr>))
            \<and> (ret r2 = 0 \<longrightarrow>
                 calls (snd (adsSyncWriteByName E adr (PyStr name) val plcDataType w))
                   = calls w @ [c1, c2, release_request E adr (handle_bytes r1)])"
  using assms(1-3)
  by (simp add: adsSyncWriteByName_def win32_only_def adsSyncReadWriteReq_resolve
      adsSyncWriteReq_request [OF assms(1) assms(4)] adsSyncWriteReq_release Let_def
      raise_ADSError_def)

text \<open>
  Claim C1, as amended. On Windows, let the name be resolved (the resolve request got the
  status zero). If the DLL answers the read request of \<open>adsSyncReadByName\<close>, or the
  write request of \<open>adsSyncWriteByName\<close>, with a status that is not zero, the
  \<open>ADSError\<close> of that status propagates to the caller and no request to release the
  handle is made: the DLL has seen the resolve request and the failed request, nothing
  else. The release request is made, once and with the resolved handle, only after the
  read or write request has succeeded.
\<close>

theorem by_name_failure_skips_release:
  assumes "platform_is_windows E" and "utf8_encode name = Inr b"
    and "ret (adsDLL E (calls w) (resolve_request E adr name b)) = 0"
  shows "(let c1 = resolve_request E adr name b;
              r1 = adsDLL E (calls w) c1;
              c2 = AdsSyncReadReq (amsAddrStruct adr) (word_of_int (ADSIGRP_SYM_VALBYHND E))
                     (handle_of r1) (of_nat (read_length E plcDataType));
              r2 = adsDLL E (calls w @ [c1]) c2
          in (ret r2 \<noteq> 0 \<longrightarrow>
                adsSyncReadByName E adr (PyStr name) plcDataType w
                  = (raise_ADSError E (sint (ret r2)), w\<lparr>calls := calls w @ [c1, c2]\<rparr>))
             \<and> (ret r2 = 0 \<longrightarrow>
                  (plcDataType = PLCTYPE_STRING \<longrightarrow>
                     returns (utf8_decode (c_char_p_value
                                (buffer (read_length E plcDataType) (out1 r2))))) \<longrightarrow>
                  calls (snd (adsSyncReadByName E adr (PyStr name) plcDataType w))
                    = calls w @ [c1, c2, release_request E adr (handle_bytes r1)]))
       \<and> (\<forall>n d. write_data val plcDataType = Inr (n, d) \<longrightarrow>
            (let c1 = resolve_request E adr name b;
                 r1 = adsDLL E (calls w) c1;
                 c2 = AdsSyncWriteReq (amsAddrStruct adr)
                        (word_of_int (ADSIGRP_SYM_VALBYHND E)) (handle_of r1) (of_nat n) d;
                 r2 = adsDLL E (calls w @ [c1]) c2
             in (ret r2 \<noteq> 0 \<longrightarrow>
                   adsSyncWriteByName E adr (PyStr name) val plcDataType w
                     = (raise_ADSError E (sint (ret r2)), w\<lparr>calls := calls w @ [c1, c2]\<rparr>))
                \<and> (ret r2 = 0 \<longrightarrow>
                     calls (snd (adsSyncWriteByName E adr (PyStr name) val plcDataType w))
                       = calls w @ [c1, c2, release_request E adr (handle_bytes r1)])))"
  using read_by_name_failure [OF assms] write_by_name_failure [OF assms]
  by blast

theorem by_name_failure_skips_release_witness:
  "adsSyncReadByName (demo_env True 1861 []) demo_adr (PyStr (ascii ''MAIN.bVar''))
     (Simple c_bool) w0
   = (raise_ADSError (demo_env True 1861 []) 1861,
      w0\<lparr>calls := [resolve_request (demo_env True 1861 []) demo_adr (ascii ''MAIN.bVar'')
                      (ascii_bytes ''MAIN.bVar''),
                    AdsSyncReadReq (amsAddrStruct demo_adr) 0xF005 1001 1]\<rparr>)
   \<and> calls (snd (adsSyncWriteByName (demo_env True 0 []) demo_adr (PyStr (ascii ''MAIN.bVar''))
                   (PyBool True) (Simple c_bool) w0))
     = [resolve_request (demo_env True 0 []) demo_adr (ascii ''MAIN.bVar'')
          (ascii_bytes ''MAIN.bVar''),
        AdsSyncWriteReq (amsAddrStruct demo_adr) 0xF005 1001 1 [1],
        release_request (demo_env True 0 []) demo_adr (le_bytes 4 1001)]"
proof -
  let ?name = "ascii ''MAIN.bVar''" and ?b = "ascii_bytes ''MAIN.bVar''"
  have enc: "utf8_encode ?name = Inr ?b"
    by code_simp
  have wd: "write_data (PyBool True) (Simple c_bool) = Inr (1, [1])"
    by code_simp
  have hb: "buffer 4 (le_bytes 4 1001) = le_bytes 4 1001" and h: "le_nat (le_bytes 4 1001) = 1001"
    by code_simp+
  show ?thesis
  proof (rule conjI)
    let ?E = "demo_env True 1861 []"
    have win: "platform_is_windows ?E"
      by (simp add: demo_env_def)
    have res: "ret (adsDLL ?E (calls w0) (resolve_request ?E demo_adr ?name ?b)) = 0"
      by (simp add: demo_env_def demo_dll_def resolve_request_def)
    show "adsSyncReadByName ?E demo_adr (PyStr ?name) (Simple c_bool) w0
          = (raise_ADSError ?E 1861,
             w0\<lparr>calls := [resolve_request ?E demo_adr ?name ?b,
                           AdsSyncReadReq (amsAddrStruct demo_adr) 0xF005 1001 1]\<rparr>)"
      using by_name_failure_skips_release [OF win enc res, of "Simple c_bool" "PyBool True"]
      by (simp add: Let_def demo_env_def demo_dll_def resolve_request_def w0_def
          handle_of_def handle_bytes_def hb h read_length_def)
  next
    let ?E = "demo_env True 0 []"
    have win: "platform_is_windows ?E"
      by (simp add: demo_env_def)
    have res: "ret (adsDLL ?E (calls w0) (resolve_request ?E demo_adr ?name ?b)) = 0"
      by (simp add: demo_env_def demo_dll_def resolve_request_def)
    show "calls (snd (adsSyncWriteByName ?E demo_adr (PyStr ?name) (PyBool True)
                        (Simple c_bool) w0))
          = [resolve_request ?E demo_adr ?name ?b,
             AdsSyncWriteReq (amsAddrStruct demo_adr) 0xF005 1001 1 [1],
             release_request ?E demo_adr (le_bytes 4 1001)]"
      using by_name_failure_skips_release [OF win enc res, of "Simple c_bool" "PyBool True"] wd
      by (simp add: Let_def demo_env_def demo_dll_def resolve_request_def w0_def
          handle_of_def handle_bytes_def hb h)
  qed
qed

text \<open>
  The claim as it was stated fails: with the handle 1001 resolved and the read (or the
  write) answered by the status 1861, the error propagates and the trace of calls holds
  no release request, where the claim wants exactly one.
\<close>

theorem by_name_release_counterexample:
  "fst (adsSyncReadByName (demo_env True 1861 []) demo_adr (PyStr (ascii ''MAIN.bVar''))
          (Simple c_bool) w0)
     = Inl (ADSErr \<lparr>err_code = 1861, msg = ascii ''timeout elapsed (1861)''\<rparr>)
   \<and> calls (snd (adsSyncReadByName (demo_env True 1861 []) demo_adr
                   (PyStr (ascii ''MAIN.bVar'')) (Simple c_bool) w0))
     = [AdsSyncReadWriteReq (amsAddrStruct demo_adr) 0xF003 0 4 10
          (ascii_bytes ''MAIN.bVar'' @ [0]),
        AdsSyncReadReq (amsAddrStruct demo_adr) 0xF005 1001 1]
   \<and> count_list
        (calls (snd (adsSyncReadByName (demo_env True 1861 []) demo_adr
                       (PyStr (ascii ''MAIN.bVar'')) (Simple c_bool) w0)))
        (release_request (demo_env True 1861 []) demo_adr (le_bytes 4 1001)) \<noteq> 1
   \<and> fst (adsSyncWriteByName (demo_env True 1861 []) demo_adr (PyStr (ascii ''MAIN.bVar''))
            (PyBool True) (Simple c_bool) w0)
     = Inl (ADSErr \<lparr>err_code = 1861, msg = ascii ''timeout elapsed (1861)''\<rparr>)
   \<and> calls (snd (adsSyncWriteByName (demo_env True 1861 []) demo_adr
                   (PyStr (ascii ''MAIN.bVar'')) (PyBool True) (Simple c_bool) w0))
     = [AdsSyncReadWriteReq (amsAddrStruct demo_adr) 0xF003 0 4 10
          (ascii_bytes ''MAIN.bVar'' @ [0]),
        AdsSyncWriteReq (amsAddrStruct demo_adr) 0xF005 1001 1 [1]]
   \<and> count_list
        (calls (snd (adsSyncWriteByName (demo_env True 1861 []) demo_adr
                       (PyStr (ascii ''MAIN.bVar'')) (PyBool True) (Simple c_bool) w0)))
        (release_request (demo_env True 1861 []) demo_adr (le_bytes 4 1001)) \<noteq> 1"
  by code_simp

section \<open>Notifications\<close>

lemma length_le_bytes: "length (le_bytes k v) = k"
  by (induction k arbitrary: v) simp_all

lemma write_data_udint:
  "write_data (PyInt (uint (h :: 32 word))) PLCTYPE_UDINT = Inr (4, le_bytes 4 (unat h))"
proof -
  have "uint h mod 2 ^ 32 = uint h"
    using uint_bounded [of h] by simp
  then have "c_set c_uint32 (PyInt (uint h)) = Inr (le_bytes 4 (unat h))"
    by simp
  then show ?thesis
    by (simp add: write_data_def object_payload_def length_le_bytes)
qed

lemma subscribe_request:
  assumes "platform_is_windows E" and "utf8_encode name = Inr b"
  shows "adsSyncAddDeviceNotificationReq E adr (PyStr name) pNoteAttrib callback user_handle w
         = (let c1 = resolve_request E adr name b;
                r1 = adsDLL E (calls w) c1
            in if ret r1 \<noteq> 0
               then (raise_ADSError E (sint (ret r1)), w\<lparr>calls := calls w @ [c1]\<rparr>)
               else
                 (case (if user_handle \<noteq> PyNone then c_ulong user_handle
                        else Inr (handle_of r1)) of
                    Inl e \<Rightarrow> (Inl e, w\<lparr>calls := calls w @ [c1]\<rparr>)
                  | Inr nHUser \<Rightarrow>
                      (let c2 = AdsSyncAddDeviceNotificationReq (amsAddrStruct adr)
                                  (word_of_int (ADSIGRP_SYM_VALBYHND E)) (handle_of r1)
                                  (notificationAttribStruct pNoteAttrib) (NOTEFUNC callback)
                                  nHUser;
                           r2 = adsDLL E (calls w @ [c1]) c2;
                           pNotification = int (le_nat (buffer 4 (out1 r2)))
                       in if ret r2 \<noteq> 0
                          then (raise_ADSError E (uint (ret r2)),
                                w\<lparr>calls := calls w @ [c1, c2]\<rparr>)
                          else (Inr (pNotification, PyInt (uint (handle_of r1))),
                                w\<lparr>calls := calls w @ [c1, c2],
                                  callback_store :=
                                    (callback_store w)
                                      (pNotification \<mapsto> Some (NOTEFUNC callback))\<rparr>))))"
  using assms
  by (simp add: adsSyncAddDeviceNotificationReq_def win32_only_def
      adsSyncReadWriteReq_resolve invoke_def Let_def raise_ADSError_def
      split: sum.splits)

lemma unsubscribe_request:
  assumes "platform_is_windows E"
  shows "adsSyncDelDeviceNotificationReq E adr notification_handle user_handle w
         = (let c = AdsSyncDelDeviceNotificationReq (amsAddrStruct adr)
                      (word_of_int notification_handle);
                r = adsDLL E (calls w) c;
                w2 = w\<lparr>calls := calls w @ [c],
                       callback_store := (callback_store w)(notification_handle \<mapsto> None)\<rparr>
            in if ret r \<noteq> 0 then (raise_ADSError E (sint (ret r)), w2)
               else adsSyncWriteReq E adr (PyInt (ADSIGRP_SYM_RELEASEHND E)) (PyInt 0)
                      user_handle PLCTYPE_UDINT w2)"
  using assms
  by (simp add: adsSyncDelDeviceNotificationReq_def win32_only_def invoke_def Let_def)

text \<open>
  Claim C2, as amended. On Windows, let the name be resolved. If the DLL answers the
  registration of the notification with a status that is not zero, the \<open>ADSError\<close> of
  that status propagates to the caller and the resolved handle is not released: the DLL
  has seen the resolve request and the failed registration, nothing else, and
  \<open>callback_store\<close> is as before.
\<close>

theorem subscribe_failure_keeps_handle:
  assumes "platform_is_windows E" and "utf8_encode name = Inr b"
    and "ret (adsDLL E (calls w) (resolve_request E adr name b)) = 0"
    and "(if user_handle \<noteq> PyNone then c_ulong user_handle
          else Inr (handle_of (adsDLL E (calls w) (resolve_request E adr name b))))
         = Inr nHUser"
  shows "let c1 = resolve_request E adr name b;
             r1 = adsDLL E (calls w) c1;
             c2 = AdsSyncAddDeviceNotificationReq (amsAddrStruct adr)
                    (word_of_int (ADSIGRP_SYM_VALBYHND E)) (handle_of r1)
                    (notificationAttribStruct pNoteAttrib) (NOTEFUNC callback) nHUser;
             r2 = adsDLL E (calls w @ [c1]) c2
         in ret r2 \<noteq> 0 \<longrightarrow>
            adsSyncAddDeviceNotificationReq E adr (PyStr name) pNoteAttrib callback user_handle w
              = (raise_ADSError E (uint (ret r2)), w\<lparr>calls := calls w @ [c1, c2]\<rparr>)"
  using assms(3,4)
  by (simp add: subscribe_request [OF assms(1,2)] Let_def)

theorem subscribe_failure_keeps_handle_witness:
  "adsSyncAddDeviceNotificationReq (demo_env True 1861 []) demo_adr (PyStr (ascii ''MAIN.x''))
     demo_attrib () PyNone w0
   = (raise_ADSError (demo_env True 1861 []) 1861,
      w0\<lparr>calls := [resolve_request (demo_env True 1861 []) demo_adr (ascii ''MAIN.x'')
                      (ascii_bytes ''MAIN.x''),
                    AdsSyncAddDeviceNotificationReq (amsAddrStruct demo_adr) 0xF005 1001
                      (notificationAttribStruct demo_attrib) (NOTEFUNC ()) 1001]\<rparr>)"
proof -
  let ?E = "demo_env True 1861 []"
  let ?name = "ascii ''MAIN.x''" and ?b = "ascii_bytes ''MAIN.x''"
  have enc: "utf8_encode ?name = Inr ?b"
    by code_simp
  have hb: "buffer 4 (le_bytes 4 1001) = le_bytes 4 1001" and h: "le_nat (le_bytes 4 1001) = 1001"
    by code_simp+
  have win: "platform_is_windows ?E"
    by (simp add: demo_env_def)
  have res: "ret (adsDLL ?E (calls w0) (resolve_request ?E demo_adr ?name ?b)) = 0"
    by (simp add: demo_env_def demo_dll_def resolve_request_def)
  have usr: "(if PyNone \<noteq> PyNone then c_ulong PyNone
              else Inr (handle_of (adsDLL ?E (calls w0) (resolve_request ?E demo_adr ?name ?b))))
             = Inr 1001"
    by (simp add: demo_env_def demo_dll_def resolve_request_def handle_of_def
        handle_bytes_def hb h)
  show ?thesis
    using subscribe_failure_keeps_handle [OF win enc res usr, of demo_attrib "()"]
    by (simp add: Let_def demo_env_def demo_dll_def resolve_request_def w0_def
        handle_of_def handle_bytes_def hb h)
qed

text \<open>
  The claim as it was stated fails: with the handle 1001 resolved and the registration
  answered by the status 1861, the error propagates and no release request has been made.
\<close>

theorem subscribe_release_counterexample:
  "fst (adsSyncAddDeviceNotificationReq (demo_env True 1861 []) demo_adr
          (PyStr (ascii ''MAIN.x'')) demo_attrib () PyNone w0)
     = Inl (ADSErr \<lparr>err_code = 1861, msg = ascii ''timeout elapsed (1861)''\<rparr>)
   \<and> calls (snd (adsSyncAddDeviceNotificationReq (demo_env True 1861 []) demo_adr
                   (PyStr (ascii ''MAIN.x'')) demo_attrib () PyNone w0))
     = [AdsSyncReadWriteReq (amsAddrStruct demo_adr) 0xF003 0 4 7 (ascii_bytes ''MAIN.x'' @ [0]),
        AdsSyncAddDeviceNotificationReq (amsAddrStruct demo_adr) 0xF005 1001
          (notificationAttribStruct demo_attrib) (NOTEFUNC ()) 1001]
   \<and> count_list
        (calls (snd (adsSyncAddDeviceNotificationReq (demo_env True 1861 []) demo_adr
                       (PyStr (ascii ''MAIN.x'')) demo_attrib () PyNone w0)))
        (release_request (demo_env True 1861 []) demo_adr (le_bytes 4 1001)) = 0"
  by code_simp

text \<open>
  Claim C3, as amended. On Windows, if the DLL answers the request to delete the
  notification with a status that is not zero, the \<open>ADSError\<close> of that status
  propagates to the caller and the symbol handle is not released: the only call made is
  the delete request. The handle is released, with one write to the release group that
  carries \<open>user_handle\<close>, only after the delete request has succeeded.
\<close>

theorem unsubscribe_failure_skips_release:
  assumes "platform_is_windows E"
  shows "let c = AdsSyncDelDeviceNotificationReq (amsAddrStruct adr)
                   (word_of_int notification_handle);
             r = adsDLL E (calls w) c
         in (ret r \<noteq> 0 \<longrightarrow>
               fst (adsSyncDelDeviceNotificationReq E adr notification_handle user_handle w)
                 = raise_ADSError E (sint (ret r))
               \<and> calls (snd (adsSyncDelDeviceNotificationReq E adr notification_handle
                               user_handle w))
                   = calls w @ [c])
            \<and> (ret r = 0 \<longrightarrow>
                 calls (snd (adsSyncDelDeviceNotificationReq E adr notification_handle
                               (PyInt (uint (h :: 32 word))) w))
                   = calls w @ [c, release_request E adr (le_bytes 4 (unat h))])"
  by (simp add: unsubscribe_request [OF assms] Let_def release_request_def
      adsSyncWriteReq_request [OF assms write_data_udint])

theorem unsubscribe_failure_skips_release_witness:
  "fst (adsSyncDelDeviceNotificationReq (demo_env True 1861 []) demo_adr 7 (PyInt 1001) w0)
     = raise_ADSError (demo_env True 1861 []) 1861
   \<and> calls (snd (adsSyncDelDeviceNotificationReq (demo_env True 1861 []) demo_adr 7
                   (PyInt 1001) w0))
     = [AdsSyncDelDeviceNotificationReq (amsAddrStruct demo_adr) 7]
   \<and> calls (snd (adsSyncDelDeviceNotificationReq (demo_env True 0 []) demo_adr 7
                   (PyInt (uint (1001 :: 32 word))) w0))
     = [AdsSyncDelDeviceNotificationReq (amsAddrStruct demo_adr) 7,
        release_request (demo_env True 0 []) demo_adr (le_bytes 4 (unat (1001 :: 32 word)))]"
proof -
  have win: "platform_is_windows (demo_env True st [])" for st
    by (simp add: demo_env_def)
  show ?thesis
    using
      unsubscribe_failure_skips_release [OF win, where st1 = 1861 and adr = demo_adr
        and notification_handle = 7 and w = w0 and user_handle = "PyInt 1001" and h = 1001]
      unsubscribe_failure_skips_release [OF win, where st1 = 0 and adr = demo_adr
        and notification_handle = 7 and w = w0 and user_handle = "PyInt 1001" and h = 1001]
    by (simp add: Let_def demo_env_def demo_dll_def w0_def)
qed

text \<open>
  The claim as it was stated fails: when the delete request is answered by the status
  1861, the error propagates and no release request has been made.
\<close>

theorem unsubscribe_release_counterexample:
  "fst (adsSyncDelDeviceNotificationReq (demo_env True 1861 []) demo_adr 7 (PyInt 1001) w0)
     = Inl (ADSErr \<lparr>err_code = 1861, msg = ascii ''timeout elapsed (1861)''\<rparr>)
   \<and> calls (snd (adsSyncDelDeviceNotificationReq (demo_env True 1861 []) demo_adr 7
                   (PyInt 1001) w0))
     = [AdsSyncDelDeviceNotificationReq (amsAddrStruct demo_adr) 7]
   \<and> count_list
        (calls (snd (adsSyncDelDeviceNotificationReq (demo_env True 1861 []) demo_adr 7
                       (PyInt 1001) w0)))
        (release_request (demo_env True 1861 []) demo_adr (le_bytes 4 1001)) = 0"
  by code_simp

text \<open>
  Claim C4. On Windows, after \<open>adsSyncDelDeviceNotificationReq\<close> the slot of the
  notification handle in \<open>callback_store\<close> holds \<open>None\<close>, so that no callback is
  registered under the handle, and the other slots are as before; this holds whatever
  status the delete request got and whatever became of the release that follows it.
\<close>

theorem unsubscribe_clears_callback:
  assumes "platform_is_windows E"
  shows "callback_store
           (snd (adsSyncDelDeviceNotificationReq E adr notification_handle user_handle w))
         = (callback_store w)(notification_handle \<mapsto> None)"
  by (simp add: unsubscribe_request [OF assms] Let_def adsSyncWriteReq_store)

theorem unsubscribe_clears_callback_witness:
  "callback_store
     (snd (adsSyncAddDeviceNotificationReq (demo_env True 0 []) demo_adr
             (PyStr (ascii ''MAIN.x'')) demo_attrib () PyNone w0)) 7
     = Some (Some (NOTEFUNC ()))
   \<and> callback_store
       (snd (adsSyncDelDeviceNotificationReq (demo_env True 1861 []) demo_adr 7 (PyInt 1001)
               (snd (adsSyncAddDeviceNotificationReq (demo_env True 0 []) demo_adr
                       (PyStr (ascii ''MAIN.x'')) demo_attrib () PyNone w0)))) 7
     = Some None
   \<and> callback_store
       (snd (adsSyncDelDeviceNotificationReq (demo_env True 0 []) demo_adr 7 (PyInt 1001)
               (snd (adsSyncAddDeviceNotificationReq (demo_env True 0 []) demo_adr
                       (PyStr (ascii ''MAIN.x'')) demo_attrib () PyNone w0)))) 7
     = Some None"
proof -
  have win: "platform_is_windows (demo_env True st [])" for st
    by (simp add: demo_env_def)
  have sub: "callback_store
     (snd (adsSyncAddDeviceNotificationReq (demo_env True 0 []) demo_adr
             (PyStr (ascii ''MAIN.x'')) demo_attrib () PyNone w0)) 7
     = Some (Some (NOTEFUNC ()))"
    by code_simp
  show ?thesis
    using sub
      unsubscribe_clears_callback [OF win, where st1 = 1861 and adr = demo_adr
        and notification_handle = 7 and user_handle = "PyInt 1001"]
      unsubscribe_clears_callback [OF win, where st1 = 0 and adr = demo_adr
        and notification_handle = 7 and user_handle = "PyInt 1001"]
    by simp
qed

lemma win32_only_returns:
  "win32_only E name fn w = (Inr x, w') \<Longrightarrow> platform_is_windows E"
  by (auto simp: win32_only_def split: if_splits)

lemma resolve_returns_str:
  assumes "adsSyncReadWriteReq E adr g off rty v PLCTYPE_STRING w = (Inr x, w1)"
  shows "\<exists>name b. v = PyStr name \<and> utf8_encode name = Inr b"
proof (cases "encode v")
  case (Inl e)
  with assms show ?thesis
    by (auto simp: adsSyncReadWriteReq_def win32_only_def split: if_splits sum.splits)
next
  case (Inr b)
  then show ?thesis by (cases v) simp_all
qed

lemma subscribe_returns_cases:
  assumes "adsSyncAddDeviceNotificationReq E adr data_name pNoteAttrib callback user_handle w
           = (Inr (nh, h2), w')"
  shows "platform_is_windows E \<and> (\<exists>name b. data_name = PyStr name \<and> utf8_encode name = Inr b)"
proof -
  have win: "platform_is_windows E"
    using assms unfolding adsSyncAddDeviceNotificationReq_def by (rule win32_only_returns)
  obtain res w1 where rw: "adsSyncReadWriteReq E adr (PyInt (ADSIGRP_SYM_HNDBYNAME E)) (PyInt 0)
      PLCTYPE_UDINT data_name PLCTYPE_STRING w = (res, w1)"
    by (cases "adsSyncReadWriteReq E adr (PyInt (ADSIGRP_SYM_HNDBYNAME E)) (PyInt 0)
      PLCTYPE_UDINT data_name PLCTYPE_STRING w")
  from assms win rw obtain hnl where "res = Inr hnl"
    by (cases res) (auto simp: adsSyncAddDeviceNotificationReq_def win32_only_def)
  with rw resolve_returns_str win show ?thesis by blast
qed

text \<open>
  Claim C10. Whenever \<open>adsSyncAddDeviceNotificationReq\<close> returns, the name was resolved
  to a handle and the registration got the status zero; the notification is registered
  on the resolved handle; the user handle passed to the DLL is the resolved handle when
  the caller gave none; the pair returned is the notification handle that the DLL wrote
  and the resolved handle; the callback is stored under the notification handle; and
  \<open>adsSyncDelDeviceNotificationReq\<close>, given the pair, releases that very handle once the
  delete request has succeeded.
\<close>

theorem subscribe_returns_resolved_handle:
  assumes "adsSyncAddDeviceNotificationReq E adr data_name pNoteAttrib callback user_handle w
           = (Inr (nh, h2), w')"
  shows "\<exists>name b nHUser.
           data_name = PyStr name \<and> utf8_encode name = Inr b
           \<and> (let c1 = resolve_request E adr name b;
                   r1 = adsDLL E (calls w) c1;
                   c2 = AdsSyncAddDeviceNotificationReq (amsAddrStruct adr)
                          (word_of_int (ADSIGRP_SYM_VALBYHND E)) (handle_of r1)
                          (notificationAttribStruct pNoteAttrib) (NOTEFUNC callback) nHUser;
                   r2 = adsDLL E (calls w @ [c1]) c2
               in ret r1 = 0 \<and> ret r2 = 0
                  \<and> calls w' = calls w @ [c1, c2]
                  \<and> (user_handle = PyNone \<longrightarrow> nHUser = handle_of r1)
                  \<and> h2 = PyInt (uint (handle_of r1))
                  \<and> nh = int (le_nat (buffer 4 (out1 r2)))
                  \<and> callback_store w' = (callback_store w)(nh \<mapsto> Some (NOTEFUNC callback))
                  \<and> (\<forall>v. let c3 = AdsSyncDelDeviceNotificationReq (amsAddrStruct adr)
                                      (word_of_int nh)
                           in ret (adsDLL E (calls v) c3) = 0 \<longrightarrow>
                              calls (snd (adsSyncDelDeviceNotificationReq E adr nh h2 v))
                                = calls v @ [c3, release_request E adr (handle_bytes r1)]))"
proof -
  from subscribe_returns_cases [OF assms] obtain name b
    where win: "platform_is_windows E" and dn: "data_name = PyStr name"
      and enc: "utf8_encode name = Inr b"
    by blast
  let ?c1 = "resolve_request E adr name b"
  let ?r1 = "adsDLL E (calls w) ?c1"
  note eq = assms [unfolded dn subscribe_request [OF win enc] Let_def]
  from eq have r1: "ret ?r1 = 0"
    by (auto simp: raise_ADSError_def split: if_splits)
  obtain nHUser where usr:
    "(if user_handle \<noteq> PyNone then c_ulong user_handle else Inr (handle_of ?r1)) = Inr nHUser"
    using eq r1
    by (cases "if user_handle \<noteq> PyNone then c_ulong user_handle else Inr (handle_of ?r1)")
      auto
  let ?c2 = "AdsSyncAddDeviceNotificationReq (amsAddrStruct adr)
               (word_of_int (ADSIGRP_SYM_VALBYHND E)) (handle_of ?r1)
               (notificationAttribStruct pNoteAttrib) (NOTEFUNC callback) nHUser"
  let ?r2 = "adsDLL E (calls w @ [?c1]) ?c2"
  from eq r1 usr have r2: "ret ?r2 = 0"
    by (auto simp: raise_ADSError_def split: if_splits)
  from eq r1 usr r2
  have nh: "nh = int (le_nat (buffer 4 (out1 ?r2)))" and h2: "h2 = PyInt (uint (handle_of ?r1))"
    and w': "w' = w\<lparr>calls := calls w @ [?c1, ?c2],
                    callback_store := (callback_store w)(nh \<mapsto> Some (NOTEFUNC callback))\<rparr>"
    by auto
  from usr have none: "user_handle = PyNone \<longrightarrow> nHUser = handle_of ?r1"
    by (auto split: if_splits)
  have rel: "ret (adsDLL E (calls v) (AdsSyncDelDeviceNotificationReq (amsAddrStruct adr)
                 (word_of_int nh))) = 0 \<longrightarrow>
             calls (snd (adsSyncDelDeviceNotificationReq E adr nh h2 v))
               = calls v @ [AdsSyncDelDeviceNotificationReq (amsAddrStruct adr) (word_of_int nh),
                            release_request E adr (handle_bytes ?r1)]" for v
    by (simp add: h2 unsubscribe_request [OF win] adsSyncWriteReq_release [OF win] Let_def)
  show ?thesis
    apply (rule exI [of _ name], rule exI [of _ b], rule exI [of _ nHUser])
    using dn enc r1 r2 none h2 nh rel
    by (simp add: Let_def w')
qed

theorem subscribe_returns_resolved_handle_witness:
  "adsSyncAddDeviceNotificationReq (demo_env True 0 []) demo_adr (PyStr (ascii ''MAIN.x''))
     demo_attrib () PyNone w0
   = (Inr (7, PyInt 1001),
      w0\<lparr>calls := [AdsSyncReadWriteReq (amsAddrStruct demo_adr) 0xF003 0 4 7
                      (ascii_bytes ''MAIN.x'' @ [0]),
                    AdsSyncAddDeviceNotificationReq (amsAddrStruct demo_adr) 0xF005 1001
                      (notificationAttribStruct demo_attrib) (NOTEFUNC ()) 1001],
          callback_store := [7 \<mapsto> Some (NOTEFUNC ())]\<rparr>)
   \<and> calls (snd (adsSyncDelDeviceNotificationReq (demo_env True 0 []) demo_adr 7 (PyInt 1001)
                   w0))
     = [AdsSyncDelDeviceNotificationReq (amsAddrStruct demo_adr) 7,
        release_request (demo_env True 0 []) demo_adr (le_bytes 4 1001)]"
proof -
  let ?E = "demo_env True 0 []"
  let ?w = "w0\<lparr>calls := [AdsSyncReadWriteReq (amsAddrStruct demo_adr) 0xF003 0 4 7
                      (ascii_bytes ''MAIN.x'' @ [0]),
                    AdsSyncAddDeviceNotificationReq (amsAddrStruct demo_adr) 0xF005 1001
                      (notificationAttribStruct demo_attrib) (NOTEFUNC ()) 1001],
          callback_store := [7 \<mapsto> Some (NOTEFUNC ())]\<rparr>"
  have win: "platform_is_windows ?E"
    by (simp add: demo_env_def)
  have enc: "utf8_encode (ascii ''MAIN.x'') = Inr (ascii_bytes ''MAIN.x'')"
    by code_simp
  have hb: "buffer 4 (le_bytes 4 1001) = le_bytes 4 1001" and h: "le_nat (le_bytes 4 1001) = 1001"
    and n: "buffer 4 (le_bytes 4 7) = le_bytes 4 7" and n': "le_nat (le_bytes 4 7) = 7"
    and cr: "c_char_p_read (ascii_bytes ''MAIN.x'') 7 = ascii_bytes ''MAIN.x'' @ [0]"
    and len: "length (ascii ''MAIN.x'') = 6"
    by code_simp+
  have sub: "adsSyncAddDeviceNotificationReq ?E demo_adr (PyStr (ascii ''MAIN.x''))
               demo_attrib () PyNone w0 = (Inr (7, PyInt 1001), ?w)"
    by (simp add: subscribe_request [OF win enc] Let_def)
      (simp add: demo_env_def demo_dll_def resolve_request_def w0_def handle_of_def
        handle_bytes_def hb h n n' cr len)
  have del: "ret (adsDLL ?E (calls w0)
               (AdsSyncDelDeviceNotificationReq (amsAddrStruct demo_adr) (word_of_int 7))) = 0"
    by (simp add: demo_env_def demo_dll_def)
  from subscribe_returns_resolved_handle [OF sub] del
  have "calls (snd (adsSyncDelDeviceNotificationReq ?E demo_adr 7 (PyInt 1001) w0))
        = [AdsSyncDelDeviceNotificationReq (amsAddrStruct demo_adr) 7,
           release_request ?E demo_adr (le_bytes 4 1001)]"
    by (auto simp: Let_def w0_def demo_env_def demo_dll_def resolve_request_def
        handle_bytes_def hb)
  with sub show ?thesis by simp
qed

section \<open>Strings on the wire\<close>

lemma c_char_p_read_value:
  "c_char_p_read b (length (c_char_p_value b) + 1) = c_char_p_value b @ [0]"
  by (induction b) (simp_all add: c_char_p_read_def c_char_p_value_def)

lemma string_payload_str:
  "utf8_encode s = Inr b \<Longrightarrow>
     string_payload (PyStr s) = Inr (length (c_char_p_value b) + 1, c_char_p_value b @ [0])"
  using c_char_p_read_value [of b] by (simp add: string_payload_def Let_def)

lemma c_char_p_value_no_null: "0 \<notin> set b \<Longrightarrow> c_char_p_value b = b"
  by (induction b) (auto simp: c_char_p_value_def)

text \<open>
  Claim C8, as amended. On Windows, writing a string whose text encodes to the bytes
  \<open>b\<close> sends the bytes of \<open>b\<close> before its first null byte, followed by one null
  terminator, and passes their number as the length; this holds for \<open>adsSyncWriteReq\<close>
  and for \<open>adsSyncWriteControlReq\<close>. No capacity takes part: a text without a null
  byte is sent whole, however long it is, as all its bytes and the terminator. For such
  a text and a capacity above zero, what is sent is the \<open>FixedString\<close> encoding of
  the specification if and only if the text has fewer bytes than the capacity.
\<close>

theorem string_write_sends_whole_text:
  assumes "platform_is_windows E" and "utf8_encode s = Inr b"
  shows "calls (snd (adsSyncWriteReq E adr (PyInt g) (PyInt off) (PyStr s) PLCTYPE_STRING w))
           = calls w @ [AdsSyncWriteReq (amsAddrStruct adr) (word_of_int g) (word_of_int off)
                          (of_nat (length (takeWhile (\<lambda>x. x \<noteq> 0) b) + 1))
                          (takeWhile (\<lambda>x. x \<noteq> 0) b @ [0])]
         \<and> calls (snd (adsSyncWriteControlReq E adr (PyInt adsState) (PyInt deviceState)
                         (PyStr s) PLCTYPE_STRING w))
           = calls w @ [AdsSyncWriteControlReq (amsAddrStruct adr) (word_of_int adsState)
                          (word_of_int deviceState)
                          (of_nat (length (takeWhile (\<lambda>x. x \<noteq> 0) b) + 1))
                          (takeWhile (\<lambda>x. x \<noteq> 0) b @ [0])]
         \<and> (0 \<notin> set b \<longrightarrow> takeWhile (\<lambda>x. x \<noteq> 0) b @ [0] = b @ [0])
         \<and> (0 \<notin> set b \<and> length b < capacity \<longrightarrow>
              takeWhile (\<lambda>x. x \<noteq> 0) b @ [0] = spec_FixedString_encode capacity b)
         \<and> (0 \<notin> set b \<longrightarrow>
              length (takeWhile (\<lambda>x. x \<noteq> 0) b @ [0]) = length b + 1)
         \<and> (0 \<notin> set b \<and> 0 < capacity \<longrightarrow>
              (takeWhile (\<lambda>x. x \<noteq> 0) b @ [0] = spec_FixedString_encode capacity b
               \<longleftrightarrow> length b < capacity))"
proof -
  have wd: "write_data (PyStr s) PLCTYPE_STRING
            = Inr (length (c_char_p_value b) + 1, c_char_p_value b @ [0])"
    by (simp add: write_data_def string_payload_str [OF assms(2)])
  have 1: "calls (snd (adsSyncWriteReq E adr (PyInt g) (PyInt off) (PyStr s) PLCTYPE_STRING w))
           = calls w @ [AdsSyncWriteReq (amsAddrStruct adr) (word_of_int g) (word_of_int off)
                          (of_nat (length (c_char_p_value b) + 1)) (c_char_p_value b @ [0])]"
    by (simp add: adsSyncWriteReq_request [OF assms(1) wd] Let_def)
  have 2: "calls (snd (adsSyncWriteControlReq E adr (PyInt adsState) (PyInt deviceState)
                         (PyStr s) PLCTYPE_STRING w))
           = calls w @ [AdsSyncWriteControlReq (amsAddrStruct adr) (word_of_int adsState)
                          (word_of_int deviceState)
                          (of_nat (length (c_char_p_value b) + 1)) (c_char_p_value b @ [0])]"
    using assms(1)
    by (simp add: adsSyncWriteControlReq_def win32_only_def invoke_def Let_def
        string_payload_str [OF assms(2)])
  have 3: "0 \<notin> set b \<longrightarrow> c_char_p_value b @ [0] = b @ [0]"
    by (simp add: c_char_p_value_no_null)
  have 4: "0 \<notin> set b \<and> length b < capacity \<longrightarrow>
           c_char_p_value b @ [0] = spec_FixedString_encode capacity b"
    by (auto simp: c_char_p_value_no_null spec_FixedString_encode_def)
  have 5: "0 \<notin> set b \<longrightarrow> length (c_char_p_value b @ [0]) = length b + 1"
    by (simp add: c_char_p_value_no_null)
  have 6: "0 \<notin> set b \<and> 0 < capacity \<longrightarrow>
           (c_char_p_value b @ [0] = spec_FixedString_encode capacity b
            \<longleftrightarrow> length b < capacity)"
  proof (intro impI, elim conjE)
    assume nn: "0 \<notin> set b" and cap: "0 < capacity"
    have "b = take (capacity - 1) b \<longleftrightarrow> length b \<le> capacity - 1"
    proof
      assume "b = take (capacity - 1) b"
      then have "length b = min (length b) (capacity - 1)"
        by (metis length_take)
      then show "length b \<le> capacity - 1"
        by linarith
    next
      assume "length b \<le> capacity - 1"
      then show "b = take (capacity - 1) b"
        by simp
    qed
    also have "\<dots> \<longleftrightarrow> length b < capacity"
      using cap by auto
    finally have "b = take (capacity - 1) b \<longleftrightarrow> length b < capacity" .
    then show "c_char_p_value b @ [0] = spec_FixedString_encode capacity b
               \<longleftrightarrow> length b < capacity"
      by (simp add: c_char_p_value_no_null [OF nn] spec_FixedString_encode_def)
  qed
  from 1 2 3 4 5 6 show ?thesis
    unfolding c_char_p_value_def by blast
qed

theorem string_write_sends_whole_text_witness:
  "calls (snd (adsSyncWriteReq (demo_env True 0 []) demo_adr (PyInt 0x4020) (PyInt 0)
                 (PyStr (ascii ''Device1'')) PLCTYPE_STRING w0))
     = [AdsSyncWriteReq (amsAddrStruct demo_adr) 0x4020 0 8 (ascii_bytes ''Device1'' @ [0])]
   \<and> ascii_bytes ''Device1'' @ [0] = spec_FixedString_encode 20 (ascii_bytes ''Device1'')"
proof -
  let ?E = "demo_env True 0 []"
  have win: "platform_is_windows ?E"
    by (simp add: demo_env_def)
  have enc: "utf8_encode (ascii ''Device1'') = Inr (ascii_bytes ''Device1'')"
    by code_simp
  have tw: "takeWhile (\<lambda>x. x \<noteq> 0) (ascii_bytes ''Device1'') = ascii_bytes ''Device1''"
    and nn: "0 \<notin> set (ascii_bytes ''Device1'')" and len: "length (ascii_bytes ''Device1'') = 7"
    by code_simp+
  show ?thesis
    using string_write_sends_whole_text [OF win enc, of demo_adr "0x4020" 0 w0 0 0 20] nn
    by (simp add: tw len w0_def)
qed

text \<open>
  The claim as it was stated fails: a text of 26 letters is written with all its 26
  bytes and the terminator, 27 bytes, where a \<open>FixedString\<close> of the capacity 20 (the
  size of the string buffer of this device) would send 19 bytes of it and the terminator.
\<close>

theorem string_write_capacity_counterexample:
  "calls (snd (adsSyncWriteReq (demo_env True 0 []) demo_adr (PyInt 0x4020) (PyInt 0)
                 (PyStr (ascii ''abcdefghijklmnopqrstuvwxyz'')) PLCTYPE_STRING w0))
     = [AdsSyncWriteReq (amsAddrStruct demo_adr) 0x4020 0 27
          (ascii_bytes ''abcdefghijklmnopqrstuvwxyz'' @ [0])]
   \<and> spec_FixedString_encode 20 (ascii_bytes ''abcdefghijklmnopqrstuvwxyz'')
     = ascii_bytes ''abcdefghijklmnopqrs'' @ [0]
   \<and> length (ascii_bytes ''abcdefghijklmnopqrstuvwxyz'' @ [0]) = 27
   \<and> \<not> length (ascii_bytes ''abcdefghijklmnopqrstuvwxyz'' @ [0]) \<le> (20 :: nat)"
  by code_simp

section \<open>Decoding and encoding UTF-8\<close>

text \<open>
  A character that the decoder accepts is encoded back into the bytes it was read from,
  so a text that was decoded from some bytes encodes to exactly those bytes.
\<close>

lemma byte_of_nat_unat: "n = unat (b::byte) \<Longrightarrow> (of_nat n :: byte) = b"
  by simp

lemma pack_div: "a < m \<Longrightarrow> (x * m + a) div m = (x::nat)"
  by simp

lemma pack_mod: "a < m \<Longrightarrow> (x * m + a) mod m = (a::nat)"
  by simp

lemma utf8_char_2:
  fixes b0 b1 :: byte
  assumes "0xC2 \<le> b0" "b0 \<le> 0xDF" "cont b1"
  shows "utf8_char ((unat b0 - 0xC0) * 64 + (unat b1 - 0x80)) = Inr [b0, b1]"
proof -
  define x where "x = unat b0 - 0xC0"
  define y where "y = unat b1 - 0x80"
  define cp where "cp = x * 64 + y"
  from assms have a: "194 \<le> unat b0" "unat b0 \<le> 223" "128 \<le> unat b1" "unat b1 \<le> 191"
    by (simp_all add: cont_def word_le_nat_alt)
  then have x: "2 \<le> x" "x \<le> 31" "0xC0 + x = unat b0" and y: "y < 64" "0x80 + y = unat b1"
    by (simp_all add: x_def y_def)
  have c: "\<not> cp < 0x80" "cp < 0x800"
    using x y by (simp_all add: cp_def)
  have d1: "cp div 64 = x" unfolding cp_def using y(1) by (rule pack_div)
  have d2: "cp mod 64 = y" unfolding cp_def using y(1) by (rule pack_mod)
  have e1: "of_nat (0xC0 + cp div 64) = b0"
    unfolding d1 using x(3) by (rule byte_of_nat_unat)
  have e2: "of_nat (0x80 + cp mod 64) = b1"
    unfolding d2 using y(2) by (rule byte_of_nat_unat)
  have "utf8_char cp = Inr [b0, b1]"
    by (simp only: utf8_char_def c e1 e2 if_True if_False)
  then show ?thesis by (simp only: cp_def x_def y_def)
qed

lemma utf8_char_3:
  fixes b0 b1 b2 :: byte
  assumes "0xE0 \<le> b0" "b0 \<le> 0xEF" "(if b0 = 0xE0 then 0xA0 else 0x80) \<le> b1"
    "b1 \<le> (if b0 = 0xED then 0x9F else 0xBF)" "cont b2"
  shows "utf8_char ((unat b0 - 0xE0) * 4096 + (unat b1 - 0x80) * 64 + (unat b2 - 0x80))
         = Inr [b0, b1, b2]"
proof -
  define x where "x = unat b0 - 0xE0"
  define y where "y = unat b1 - 0x80"
  define z where "z = unat b2 - 0x80"
  define cp where "cp = x * 4096 + y * 64 + z"
  have b0: "b0 = 0xE0 \<longleftrightarrow> unat b0 = 224" "b0 = 0xED \<longleftrightarrow> unat b0 = 237"
    by (simp_all add: word_unat_eq_iff)
  from assms have a: "224 \<le> unat b0" "unat b0 \<le> 239" "128 \<le> unat b1" "unat b1 \<le> 191"
     "128 \<le> unat b2" "unat b2 \<le> 191"
    by (auto simp: cont_def word_le_nat_alt split: if_splits)
  from assms(3,4) have a': "unat b0 = 224 \<Longrightarrow> 160 \<le> unat b1" "unat b0 = 237 \<Longrightarrow> unat b1 \<le> 159"
    by (auto simp: word_le_nat_alt b0 split: if_splits)
  from a have x: "x \<le> 15" "0xE0 + x = unat b0" and y: "y < 64" "0x80 + y = unat b1"
    and z: "z < 64" "0x80 + z = unat b2"
    by (simp_all add: x_def y_def z_def)
  have xy1: "32 \<le> y" if "x = 0"
  proof -
    from that a(1,2) have "unat b0 = 224" by (simp add: x_def)
    from a'(1) [OF this] show ?thesis by (simp add: y_def)
  qed
  have xy2: "y \<le> 31" if "x = 13"
  proof -
    from that a(1,2) have "unat b0 = 237" by (simp add: x_def)
    from a'(2) [OF this] show ?thesis by (simp add: y_def)
  qed
  have c1: "\<not> cp < 0x80" "\<not> cp < 0x800"
    using xy1 y z by (cases "x = 0"; simp add: cp_def)+
  have c2: "cp < 0x10000"
    using x y z by (simp add: cp_def)
  have c3: "\<not> (0xD800 \<le> cp \<and> cp \<le> 0xDFFF)"
  proof -
    consider "x \<le> 12" | "x = 13" | "14 \<le> x" by linarith
    then show ?thesis
      using xy2 y z by cases (simp_all add: cp_def)
  qed
  have r1: "cp = x * 4096 + (y * 64 + z)" and r2: "cp = (x * 64 + y) * 64 + z"
    by (simp_all add: cp_def)
  have yz: "y * 64 + z < 4096" using y z by simp
  have d1: "cp div 4096 = x" unfolding r1 using yz by (rule pack_div)
  have "cp div 64 = x * 64 + y" unfolding r2 using z(1) by (rule pack_div)
  then have d2: "(cp div 64) mod 64 = y" using y(1) by (simp only: pack_mod)
  have d3: "cp mod 64 = z" unfolding r2 using z(1) by (rule pack_mod)
  have e1: "of_nat (0xE0 + cp div 4096) = b0"
    unfolding d1 using x(2) by (rule byte_of_nat_unat)
  have e2: "of_nat (0x80 + (cp div 64) mod 64) = b1"
    unfolding d2 using y(2) by (rule byte_of_nat_unat)
  have e3: "of_nat (0x80 + cp mod 64) = b2"
    unfolding d3 using z(2) by (rule byte_of_nat_unat)
  have "utf8_char cp = Inr [b0, b1, b2]"
    by (simp only: utf8_char_def c1 c2 c3 e1 e2 e3 if_True if_False)
  then show ?thesis by (simp only: cp_def x_def y_def z_def)
qed

lemma utf8_char_4:
  fixes b0 b1 b2 b3 :: byte
  assumes "0xF0 \<le> b0" "b0 \<le> 0xF4" "(if b0 = 0xF0 then 0x90 else 0x80) \<le> b1"
    "b1 \<le> (if b0 = 0xF4 then 0x8F else 0xBF)" "cont b2" "cont b3"
  shows "utf8_char ((unat b0 - 0xF0) * 262144 + (unat b1 - 0x80) * 4096
                    + (unat b2 - 0x80) * 64 + (unat b3 - 0x80))
         = Inr [b0, b1, b2, b3]"
proof -
  define x where "x = unat b0 - 0xF0"
  define y where "y = unat b1 - 0x80"
  define z where "z = unat b2 - 0x80"
  define t where "t = unat b3 - 0x80"
  define cp where "cp = x * 262144 + y * 4096 + z * 64 + t"
  have b0: "b0 = 0xF0 \<longleftrightarrow> unat b0 = 240" "b0 = 0xF4 \<longleftrightarrow> unat b0 = 244"
    by (simp_all add: word_unat_eq_iff)
  from assms have a: "240 \<le> unat b0" "unat b0 \<le> 244" "128 \<le> unat b1" "unat b1 \<le> 191"
     "128 \<le> unat b2" "unat b2 \<le> 191" "128 \<le> unat b3" "unat b3 \<le> 191"
    by (auto simp: cont_def word_le_nat_alt split: if_splits)
  from assms(3,4) have a': "unat b0 = 240 \<Longrightarrow> 144 \<le> unat b1" "unat b0 = 244 \<Longrightarrow> unat b1 \<le> 143"
    by (auto simp: word_le_nat_alt b0 split: if_splits)
  from a have x: "x \<le> 4" "0xF0 + x = unat b0" and y: "y < 64" "0x80 + y = unat b1"
    and z: "z < 64" "0x80 + z = unat b2" and t: "t < 64" "0x80 + t = unat b3"
    by (simp_all add: x_def y_def z_def t_def)
  have xy1: "16 \<le> y" if "x = 0"
  proof -
    from that a(1,2) have "unat b0 = 240" by (simp add: x_def)
    from a'(1) [OF this] show ?thesis by (simp add: y_def)
  qed
  have xy2: "y \<le> 15" if "x = 4"
  proof -
    from that a(1,2) have "unat b0 = 244" by (simp add: x_def)
    from a'(2) [OF this] show ?thesis by (simp add: y_def)
  qed
  have c1: "\<not> cp < 0x80" "\<not> cp < 0x800" "\<not> cp < 0x10000"
    using xy1 y z t by (cases "x = 0"; simp add: cp_def)+
  have c2: "cp < 0x110000"
  proof -
    consider "x \<le> 3" | "x = 4" using x(1) by linarith
    then show ?thesis
      using xy2 y z t by cases (simp_all add: cp_def)
  qed
  have r1: "cp = x * 262144 + (y * 4096 + z * 64 + t)"
    and r2: "cp = (x * 64 + y) * 4096 + (z * 64 + t)"
    and r3: "cp = (x * 4096 + y * 64 + z) * 64 + t"
    and r4: "x * 4096 + y * 64 + z = (x * 64 + y) * 64 + z"
    by (simp_all add: cp_def)
  have yzt: "y * 4096 + z * 64 + t < 262144" and zt: "z * 64 + t < 4096"
    using y z t by simp_all
  have d1: "cp div 262144 = x" unfolding r1 using yzt by (rule pack_div)
  have "cp div 4096 = x * 64 + y" unfolding r2 using zt by (rule pack_div)
  then have d2: "(cp div 4096) mod 64 = y" using y(1) by (simp only: pack_mod)
  have "cp div 64 = (x * 64 + y) * 64 + z" unfolding r3 r4 [symmetric] using t(1) by (rule pack_div)
  then have d3: "(cp div 64) mod 64 = z" using z(1) by (simp only: pack_mod)
  have d4: "cp mod 64 = t" unfolding r3 using t(1) by (rule pack_mod)
  have e1: "of_nat (0xF0 + cp div 262144) = b0"
    unfolding d1 using x(2) by (rule byte_of_nat_unat)
  have e2: "of_nat (0x80 + (cp div 4096) mod 64) = b1"
    unfolding d2 using y(2) by (rule byte_of_nat_unat)
  have e3: "of_nat (0x80 + (cp div 64) mod 64) = b2"
    unfolding d3 using z(2) by (rule byte_of_nat_unat)
  have e4: "of_nat (0x80 + cp mod 64) = b3"
    unfolding d4 using t(2) by (rule byte_of_nat_unat)
  have "utf8_char cp = Inr [b0, b1, b2, b3]"
    by (simp only: utf8_char_def c1 c2 e1 e2 e3 e4 if_True if_False)
  then show ?thesis by (simp only: cp_def x_def y_def z_def t_def)
qed

lemma utf8_char_1:
  fixes b0 :: byte
  assumes "b0 < 0x80"
  shows "utf8_char (unat b0) = Inr [b0]"
proof -
  from assms have "unat b0 < 0x80" by (simp add: word_less_nat_alt)
  then show ?thesis by (simp add: utf8_char_def)
qed

lemma utf8_step_char:
  assumes "utf8_step bs = Some (cp, n)"
  shows "utf8_char cp = Inr (take n bs)"
proof (cases bs)
  case Nil
  with assms show ?thesis by simp
next
  case (Cons b0 r)
  show ?thesis
    using assms unfolding Cons utf8_step.simps
    by (auto split: if_splits list.splits
        simp: utf8_char_1 utf8_char_2 utf8_char_3 utf8_char_4
          utf8_char_3 [of "0xE0", simplified] utf8_char_3 [of "0xED", simplified]
          utf8_char_4 [of "0xF0", simplified] utf8_char_4 [of "0xF4", simplified]
        simp del: utf8_step.simps)
qed

lemma utf8_decode_encode: "utf8_decode bs = Inr s \<Longrightarrow> utf8_encode s = Inr bs"
proof (induction bs arbitrary: s rule: utf8_decode.induct)
  case (1 bs)
  show ?case
  proof (cases "bs = []")
    case True
    with "1.prems" show ?thesis by (subst (asm) utf8_decode.simps) auto
  next
    case False
    from "1.prems" False obtain cp n s' where st: "utf8_step bs = Some (cp, n)"
      and rest: "utf8_decode (drop n bs) = Inr s'" and s: "s = cp # s'"
      by (subst (asm) utf8_decode.simps) (auto split: option.splits sum.splits)
    from "1.IH" [OF False st refl rest] have "utf8_encode s' = Inr (drop n bs)" .
    with utf8_step_char [OF st] show ?thesis by (simp add: s)
  qed
qed

lemma utf8_decode_error: "utf8_decode bs = Inl e \<Longrightarrow> e = UnicodeDecodeError"
proof (induction bs rule: utf8_decode.induct)
  case (1 bs)
  show ?case
  proof (cases "utf8_step bs")
    case None
    with "1.prems" show ?thesis
      by (subst (asm) utf8_decode.simps) (auto split: if_splits)
  next
    case (Some p)
    obtain cp n where p: "p = (cp, n)" by (cases p)
    from "1.prems" Some p have ne: "bs \<noteq> []" and "utf8_decode (drop n bs) = Inl e"
      by (subst (asm) utf8_decode.simps, auto split: if_splits sum.splits)+
    with "1.IH" [OF ne Some p [symmetric]] show ?thesis by simp
  qed
qed

text \<open>Bytes below 128 decode to themselves, one character each.\<close>

lemma utf8_decode_ascii:
  "\<forall>x \<in> set bs. x < 0x80 \<Longrightarrow> utf8_decode bs = Inr (map unat bs)"
proof (induction bs)
  case Nil
  show ?case by (subst utf8_decode.simps) simp
next
  case (Cons x bs)
  then show ?case by (subst utf8_decode.simps) simp
qed

lemma adsSyncReadReq_string:
  assumes "platform_is_windows E"
  shows "let c = AdsSyncReadReq (amsAddrStruct adr) (word_of_int g) (word_of_int off)
                   (of_nat (STRING_BUFFER E));
             r = adsDLL E (calls w) c;
             pre = takeWhile (\<lambda>x. x \<noteq> 0) (buffer (STRING_BUFFER E) (out1 r))
         in ret r = 0 \<longrightarrow>
            fst (adsSyncReadReq E adr (PyInt g) (PyInt off) PLCTYPE_STRING w)
              = (case utf8_decode pre of
                   Inl e \<Rightarrow> Inl UnicodeDecodeError
                 | Inr s \<Rightarrow> Inr (PyStr s))"
  by (auto simp: adsSyncReadReq_request [OF assms] Let_def read_length_def c_char_p_value_def
      split: sum.splits dest: utf8_decode_error)

text \<open>
  Claim C9, as amended. On Windows, let a read of the string type get the status zero,
  and let the prefix be the bytes of the buffer before its first null byte (the whole
  buffer when it has none). The result is the text that the prefix encodes in UTF-8,
  that is the text whose encoding is the prefix, byte for byte; where the prefix is
  ASCII, the characters of the result are the bytes of the prefix.
  Where the prefix is not valid UTF-8, the read raises \<open>UnicodeDecodeError\<close> and gives
  no result. A buffer that begins with the bytes of "Device1", a null byte and further
  bytes is read as "Device1" (shown below on the device).
\<close>

theorem string_read_decodes_prefix:
  assumes "platform_is_windows E"
  shows "let c = AdsSyncReadReq (amsAddrStruct adr) (word_of_int g) (word_of_int off)
                   (of_nat (STRING_BUFFER E));
             r = adsDLL E (calls w) c;
             pre = takeWhile (\<lambda>x. x \<noteq> 0) (buffer (STRING_BUFFER E) (out1 r))
         in ret r = 0 \<longrightarrow>
            fst (adsSyncReadReq E adr (PyInt g) (PyInt off) PLCTYPE_STRING w)
              = (case utf8_decode pre of
                   Inl e \<Rightarrow> Inl UnicodeDecodeError
                 | Inr s \<Rightarrow> Inr (PyStr s))
            \<and> (\<forall>s. utf8_decode pre = Inr s \<longrightarrow> utf8_encode s = Inr pre)
            \<and> ((\<forall>x \<in> set pre. x < 0x80) \<longrightarrow>
                 fst (adsSyncReadReq E adr (PyInt g) (PyInt off) PLCTYPE_STRING w)
                   = Inr (PyStr (map unat pre)))"
  using adsSyncReadReq_string [OF assms, of adr g off w]
  by (auto simp: Let_def utf8_decode_ascii utf8_decode_encode)

theorem string_read_decodes_prefix_witness:
  "fst (adsSyncReadReq (demo_env True 0 device1_buffer)
          demo_adr (PyInt 0x4020) (PyInt 0) PLCTYPE_STRING w0)
   = Inr (PyStr (ascii ''Device1''))
   \<and> device1_buffer = ascii_bytes ''Device1'' @ [0] @ ascii_bytes ''garbage''"
proof -
  let ?E = "demo_env True 0 device1_buffer"
  have win: "platform_is_windows ?E"
    by (simp add: demo_env_def)
  have pfx: "takeWhile (\<lambda>x. x \<noteq> 0)
               (buffer 20 device1_buffer)
             = ascii_bytes ''Device1''"
    and asc: "\<forall>x \<in> set (ascii_bytes ''Device1''). x < 0x80"
    and dec: "map unat (ascii_bytes ''Device1'') = ascii ''Device1''"
    and udec: "utf8_decode (ascii_bytes ''Device1'') = Inr (ascii ''Device1'')"
    by code_simp+
  have "fst (adsSyncReadReq ?E demo_adr (PyInt 0x4020) (PyInt 0) PLCTYPE_STRING w0)
        = Inr (PyStr (ascii ''Device1''))"
    using string_read_decodes_prefix [OF win, of demo_adr "0x4020" 0 w0] asc
    by (simp add: Let_def demo_env_def demo_dll_def w0_def pfx dec udec)
  then show ?thesis
    by (simp add: device1_buffer_def)
qed

text \<open>
  The claim as it was stated fails: the buffer that holds the byte 255 and then null
  bytes has the prefix 255, and the read raises \<open>UnicodeDecodeError\<close> instead of
  returning the prefix.
\<close>

theorem string_read_counterexample:
  "takeWhile (\<lambda>x. x \<noteq> 0) (buffer 20 [0xFF, 0]) = [0xFF]
   \<and> fst (adsSyncReadReq (demo_env True 0 [0xFF, 0]) demo_adr (PyInt 0x4020) (PyInt 0)
            PLCTYPE_STRING w0)
     = Inl UnicodeDecodeError"
  by code_simp

end
